theory Spec2Isabelle
  imports Main "HOL-Library.Word"
begin

unbundle bit_operations_syntax

section \<open>Common data\<close>

text \<open>
  A C++ \<open>int\<close> is a 32-bit two's complement value on every target of the repository;
  \<open>sint\<close> reads it as signed.  Exit codes and \<open>std::error_code::value()\<close> are of this type.
\<close>

type_synonym int32 = "32 word"

text \<open>
  A 64-bit two's complement value, the tick count of a \<open>std::chrono\<close> time point or
  duration.  Subtraction wraps around, as it does on the targets; \<open>sint\<close> reads the
  signed value.
\<close>

type_synonym int64 = "64 word"

text \<open>
  \<open>std::error_code\<close>: a value and a category.  Its \<open>explicit operator bool\<close> is
  \<open>value() != 0\<close>.
\<close>

record error_code =
  ec_value :: int32
  ec_category :: string

definition is_error :: "error_code \<Rightarrow> bool" where
  "is_error rc = (ec_value rc \<noteq> 0)"

text \<open>The character \<open>'\<close> as a string, for messages that end or start with it.\<close>

definition apostrophe :: string where
  "apostrophe = [CHR 0x27]"

section \<open>ScopedNewHandler (base/include/scoped_new_handler.h)\<close>

text \<open>
  The process has one installed new-handler, a function pointer that may be null
  (\<open>None\<close>).  \<open>std::set_new_handler\<close> (and \<open>_set_new_handler\<close> in the Windows variant of
  the class) installs its argument and returns the handler that was installed before.
  The global is the explicit state; the object holds \<open>previous_new_handler_\<close>.
\<close>

type_synonym 'h new_handler = "'h option"

definition set_new_handler :: "'h new_handler \<Rightarrow> 'h new_handler \<Rightarrow> 'h new_handler \<times> 'h new_handler" where
  "set_new_handler new_p installed = (installed, new_p)"

definition get_new_handler :: "'h new_handler \<Rightarrow> 'h new_handler" where
  "get_new_handler installed = installed"

record 'h ScopedNewHandler =
  previous_new_handler :: "'h new_handler"

text \<open>The constructor: \<open>previous_new_handler_{std::set_new_handler(new_handler)}\<close>.\<close>

definition ScopedNewHandler_ctor ::
  "'h new_handler \<Rightarrow> 'h new_handler \<Rightarrow> 'h ScopedNewHandler \<times> 'h new_handler" where
  "ScopedNewHandler_ctor new_handler installed =
     (case set_new_handler new_handler installed of
        (previous, installed') \<Rightarrow> (\<lparr>previous_new_handler = previous\<rparr>, installed'))"

text \<open>The destructor: \<open>std::set_new_handler(previous_new_handler_)\<close>, result discarded.\<close>

definition ScopedNewHandler_dtor :: "'h ScopedNewHandler \<Rightarrow> 'h new_handler \<Rightarrow> 'h new_handler" where
  "ScopedNewHandler_dtor this installed =
     snd (set_new_handler (previous_new_handler this) installed)"

text \<open>
  A scope \<open>{ const ScopedNewHandler scoped{h}; body }\<close>: construct, run the body on the
  global, destroy.  The body is any function on the installed handler; the test's body only
  reads it.
\<close>

definition scoped_block ::
  "'h new_handler \<Rightarrow> ('h new_handler \<Rightarrow> 'h new_handler) \<Rightarrow> 'h new_handler \<Rightarrow> 'h new_handler" where
  "scoped_block h body installed =
     (case ScopedNewHandler_ctor h installed of
        (scoped, in_scope) \<Rightarrow> ScopedNewHandler_dtor scoped (body in_scope))"

section \<open>The kernel's message loop on Windows (kernel/main\_win.cc)\<close>

subsection \<open>Messages, the loop's state and what it does to the outside\<close>

text \<open>
  \<open>MSG\<close> with the fields the loop reads: \<open>message\<close> is a \<open>UINT\<close>, \<open>wParam\<close> a
  \<open>WPARAM\<close> (64 bits on the supported x64 target).
\<close>

record MSG =
  message :: "32 word"
  wParam :: "64 word"
  lParam :: "64 word"

definition WM_QUIT :: "32 word" where
  "WM_QUIT = 0x0012"

text \<open>
  What the loop does to its collaborators, in order: messages handed on by the dispatcher,
  calls of \<open>SimulateWorldStep\<close> with their \<open>delta_time\<close>, and the two warning lines.
  The two input queues are passed to \<open>SimulateWorldStep\<close> by reference and are not
  touched by the loop itself.
\<close>

datatype loop_event =
    Dispatched MSG
  | PreDispatched MSG
  | SimulateWorldStep int64
  | LogDispatchError string error_code
  | LogExitCode string int32

text \<open>
  The locals of \<open>DispatchMessages\<close>.  Clock readings and their differences are
  64-bit tick counts of \<open>HighResolutionClock\<close>.
\<close>

record loop_state =
  exit_code :: int32
  is_done :: bool
  loop_iteration_start_time :: int64
  events :: "loop_event list"

text \<open>
  What the platform presents to one iteration of the loop: the messages pending when
  \<open>Dispatch\<close> is called, the dispatcher's return value, and the reading of
  \<open>HighResolutionClock::now()\<close> taken after the dispatch.
\<close>

record pump =
  pending :: "MSG list"
  dispatch_rc :: "error_code option"
  now_time :: int64

text \<open>The lambda \<open>handle_quit_message\<close>; \<open>static_cast<int>(msg.wParam)\<close> keeps the low 32 bits.\<close>

definition handle_quit_message :: "MSG \<Rightarrow> loop_state \<Rightarrow> loop_state" where
  "handle_quit_message msg s =
     (if message msg = WM_QUIT
      then s\<lparr>exit_code := ucast (wParam msg), is_done := True\<rparr>
      else s)"

text \<open>
  Modelled from the spec: \<open>PeekMessageDispatcher::Dispatch\<close>
  (ui/win/peek\_message\_dispatcher.h is not among the sources).  It pumps the pending
  messages in order; the pre-dispatch predicate may take a message out of normal handling;
  the second callback sees every pumped message; a quit message ends the burst and the
  messages after it are ignored.  It reports an abnormal dispatch condition as an
  \<open>std::error_code\<close>, no value otherwise.
\<close>

fun pump_messages ::
  "(MSG \<Rightarrow> bool) \<Rightarrow> (MSG \<Rightarrow> loop_state \<Rightarrow> loop_state) \<Rightarrow> MSG list \<Rightarrow> loop_state \<Rightarrow> loop_state" where
  "pump_messages pre post [] s = s"
| "pump_messages pre post (m # ms) s =
     (let s1 = s\<lparr>events := events s @ [if pre m then PreDispatched m else Dispatched m]\<rparr>;
          s2 = post m s1
      in if message m = WM_QUIT then s2 else pump_messages pre post ms s2)"

definition Dispatch ::
  "(MSG \<Rightarrow> bool) \<Rightarrow> (MSG \<Rightarrow> loop_state \<Rightarrow> loop_state) \<Rightarrow> pump \<Rightarrow> loop_state
     \<Rightarrow> loop_state \<times> error_code option" where
  "Dispatch pre post p s = (pump_messages pre post (pending p) s, dispatch_rc p)"

text \<open>
  Modelled from the spec: \<open>HasNoPreDispatchMessage\<close> (ui/win/base\_window.h is not among
  the sources); as its name says, no message is taken out of normal handling.  The loop
  below takes the predicate as a parameter, so nothing proved about it depends on this.
\<close>

definition HasNoPreDispatchMessage :: "MSG \<Rightarrow> bool" where
  "HasNoPreDispatchMessage msg = False"

subsection \<open>The loop\<close>

text \<open>
  One pass through the body of \<open>while (!is_done)\<close>: either the \<open>break\<close> of the
  dispatch-error branch, or the end of the body after \<open>SimulateWorldStep\<close>.

  Modelled from the spec: the macro \<open>G3PLOGE2_IF(WARNING, rc)\<close> (base/deps/g3log/g3log.h
  is not among the sources) writes its warning line when \<open>rc\<close> holds an error, that is
  a non-zero code, and nothing when the code is zero.
\<close>

datatype 'a flow = Continue 'a | Break 'a

definition loop_body :: "string \<Rightarrow> (MSG \<Rightarrow> bool) \<Rightarrow> pump \<Rightarrow> loop_state \<Rightarrow> loop_state flow" where
  "loop_body main_window_name pre p s =
     (case Dispatch pre handle_quit_message p s of
        (s1, Some rc) \<Rightarrow>
          Break ((if is_error rc
                  then s1\<lparr>events := events s1 @ [LogDispatchError main_window_name rc]\<rparr>
                  else s1)\<lparr>exit_code := ec_value rc\<rparr>)
      | (s1, None) \<Rightarrow>
          (let now_t = now_time p;
               delta_time = now_t - loop_iteration_start_time s1;
               s2 = s1\<lparr>loop_iteration_start_time := now_t\<rparr>
           in Continue (s2\<lparr>events := events s2 @ [SimulateWorldStep delta_time]\<rparr>)))"

text \<open>
  The loop over a script of pumps.  The real loop polls for ever while nothing stops it:
  a script that ends with the loop still running gives \<open>None\<close>.
\<close>

fun main_loop :: "string \<Rightarrow> (MSG \<Rightarrow> bool) \<Rightarrow> pump list \<Rightarrow> loop_state \<Rightarrow> loop_state option" where
  "main_loop main_window_name pre [] s = (if is_done s then Some s else None)"
| "main_loop main_window_name pre (p # ps) s =
     (if is_done s then Some s
      else case loop_body main_window_name pre p s of
             Break s' \<Rightarrow> Some s'
           | Continue s' \<Rightarrow> main_loop main_window_name pre ps s')"

definition init_loop_state :: "int64 \<Rightarrow> loop_state" where
  "init_loop_state start =
     \<lparr>exit_code = 0, is_done = False, loop_iteration_start_time = start, events = []\<rparr>"

text \<open>
  \<open>DispatchMessages\<close>: \<open>start\<close> is the clock reading taken before the loop.  The result
  is the returned exit code with everything the call did, the closing
  \<open>G3LOG_IF(WARNING, exit_code != 0)\<close> included.
\<close>

definition DispatchMessages ::
  "string \<Rightarrow> (MSG \<Rightarrow> bool) \<Rightarrow> int64 \<Rightarrow> pump list \<Rightarrow> (int32 \<times> loop_event list) option" where
  "DispatchMessages main_window_name pre start script =
     (case main_loop main_window_name pre script (init_loop_state start) of
        None \<Rightarrow> None
      | Some s \<Rightarrow>
          Some (exit_code s,
                events s @ (if exit_code s \<noteq> 0
                            then [LogExitCode main_window_name (exit_code s)] else [])))"

subsection \<open>KernelMain\<close>

text \<open>
  A localised text before rendering: the format string that is looked up and its arguments
  (\<open>intl::l18n\<close> has none).  Rendering belongs to the localisation collaborator.
\<close>

record l18n_text =
  txt_format :: string
  txt_args :: "string list"

definition l18n :: "string \<Rightarrow> l18n_text" where
  "l18n fmt = \<lparr>txt_format = fmt, txt_args = []\<rparr>"

definition l18n_fmt :: "string \<Rightarrow> string list \<Rightarrow> l18n_text" where
  "l18n_fmt fmt args = \<lparr>txt_format = fmt, txt_args = args\<rparr>"

text \<open>
  The arguments of \<open>ui::FatalDialog\<close>: title, error code, remediation hint and detail
  message (the dialog context, icons and layout, is left to the UI collaborator).

  Modelled from the spec: \<open>ui::FatalDialog\<close> (ui/fatal\_dialog.h is not among the
  sources) hands this payload to the UI collaborator and terminates the process; control
  does not come back to the caller.
\<close>

record fatal_payload =
  fd_title :: l18n_text
  fd_rc :: "error_code option"
  fd_remediation :: l18n_text
  fd_detail :: l18n_text

datatype kernel_result =
    KernelReturned int32 "loop_event list"
  | KernelFatal fatal_payload

text \<open>
  \<open>KernelMain\<close> of kernel/main\_win.cc.  \<open>window_result\<close> is what
  \<open>BaseWindow::New<MainWindow>\<close> gave: the error code, or the window (whose
  definition's name, the application description, is all the loop uses).
\<close>

definition KernelMain ::
  "string \<Rightarrow> error_code + unit \<Rightarrow> (MSG \<Rightarrow> bool) \<Rightarrow> int64 \<Rightarrow> pump list \<Rightarrow> kernel_result option" where
  "KernelMain app_description window_result pre start script =
     (case window_result of
        Inr window \<Rightarrow>
          (case DispatchMessages app_description pre start script of
             None \<Rightarrow> None
           | Some (rc, evs) \<Rightarrow> Some (KernelReturned rc evs))
      | Inl error \<Rightarrow>
          Some (KernelFatal
            \<lparr>fd_title = l18n_fmt ''{0} - Error'' [app_description],
             fd_rc = Some error,
             fd_remediation = l18n
               ''Please, check app is installed correctly and you have enough permissions to run it.'',
             fd_detail = l18n_fmt ''Unable to create main '{0}' window.'' [app_description]\<rparr>))"

section \<open>The kernel's message loop on SDL (whitebox-kernel/main.cc, not Windows)\<close>

text \<open>
  \<open>SDL_Event\<close> is a union; every member starts with the \<open>Uint32 type\<close>, and the
  user event member carries an \<open>Sint32 code\<close>.
\<close>

record SDL_Event =
  ev_type :: "32 word"
  ev_code :: int32

definition SDL_QUIT :: "32 word" where
  "SDL_QUIT = 0x100"

text \<open>
  The inner loop \<open>while (SDL_PollEvent(&event) == 1)\<close> over the events pending at one
  pass: the \<open>break\<close> leaves the \<open>switch\<close> only, so the queue is drained to its end.
\<close>

fun poll_events :: "SDL_Event list \<Rightarrow> bool \<Rightarrow> bool" where
  "poll_events [] is_done_flag = is_done_flag"
| "poll_events (event # rest) is_done_flag =
     (if ev_type event = SDL_QUIT then poll_events rest True
      else poll_events rest is_done_flag)"

text \<open>
  The outer loop over a script of bursts, one per pass (the pass ends with the 5 ms sleep).
  \<open>None\<close>: the script ended with the loop still running.
\<close>

fun sdl_loop :: "SDL_Event list list \<Rightarrow> bool \<Rightarrow> unit option" where
  "sdl_loop [] is_done_flag = (if is_done_flag then Some () else None)"
| "sdl_loop (burst # bursts) is_done_flag =
     (if is_done_flag then Some ()
      else sdl_loop bursts (poll_events burst is_done_flag))"

definition DispatchMessages_posix :: "SDL_Event list list \<Rightarrow> int32 option" where
  "DispatchMessages_posix script =
     (case sdl_loop script False of None \<Rightarrow> None | Some _ \<Rightarrow> Some 0)"

text \<open>
  \<open>KernelMain\<close> of the same file, SDL branch: what the start-up calls gave (an error
  text where one failed), then the loop.  The icon's failure is a warning only.
\<close>

record sdl_startup =
  compiled_sdl_version :: string
  linked_sdl_version :: string
  sdl_revision :: string
  sdl_image_initializer_flags :: string
  graphics_context :: string
  sdl_init_error :: "string option"
  sdl_image_init_error :: "string option"
  sdl_window_error :: "string option"
  sdl_icon_error :: "string option"

datatype posix_kernel_result =
    PosixReturned int32
  | PosixFatal fatal_payload

definition KernelMain_posix ::
  "string \<Rightarrow> sdl_startup \<Rightarrow> SDL_Event list list \<Rightarrow> posix_kernel_result option" where
  "KernelMain_posix app_description st script =
     (case sdl_init_error st of
        Some error \<Rightarrow>
          Some (PosixFatal
            \<lparr>fd_title = l18n_fmt ''{0} - Error'' [app_description], fd_rc = None,
             fd_remediation = l18n ''Please, check your SDL library installed and working.'',
             fd_detail = l18n_fmt
               (''SDL build/runtime v.{0}/v.{1}, revision '{2}' initialization failed.''
                  @ [CHR 0x0A, CHR 0x0A] @ ''{3}.'')
               [compiled_sdl_version st, linked_sdl_version st, sdl_revision st, error]\<rparr>)
      | None \<Rightarrow>
     (case sdl_image_init_error st of
        Some error \<Rightarrow>
          Some (PosixFatal
            \<lparr>fd_title = l18n_fmt ''{0} - Error'' [app_description], fd_rc = None,
             fd_remediation = l18n ''Please, check your SDL library installed and working.'',
             fd_detail = l18n_fmt
               (''SDL image parser initialization failed for image types {0}.''
                  @ [CHR 0x0A, CHR 0x0A] @ ''{1}.'')
               [sdl_image_initializer_flags st, error]\<rparr>)
      | None \<Rightarrow>
     (case sdl_window_error st of
        Some error \<Rightarrow>
          Some (PosixFatal
            \<lparr>fd_title = l18n_fmt ''{0} - Error'' [app_description], fd_rc = None,
             fd_remediation = l18n_fmt
               ''Please, check you installed '{0}' libraries/drivers.'' [graphics_context st],
             fd_detail = l18n_fmt
               (''SDL window create failed with '{0}' context.''
                  @ [CHR 0x0A, CHR 0x0A] @ ''{1}.'')
               [graphics_context st, error]\<rparr>)
      | None \<Rightarrow>
     (case DispatchMessages_posix script of
        None \<Rightarrow> None
      | Some rc \<Rightarrow> Some (PosixReturned rc)))))"

section \<open>The launcher on Windows (apps/half-life-2/hl2\_exe\_main\_win.cc)\<close>

subsection \<open>Modules and the platform\<close>

text \<open>
  An entry point is a function from its arguments to an \<open>int\<close>.  A loaded module
  (\<open>ScopedSharedLibrary\<close>) is its symbol lookup \<open>GetAddressAs\<close>: the entry point under
  a name, or the platform's error code.
\<close>

type_synonym 'args entry_point = "'args \<Rightarrow> int32"

type_synonym 'args shared_library = "string \<Rightarrow> error_code + 'args entry_point"

definition LOAD_WITH_ALTERED_SEARCH_PATH :: "32 word" where
  "LOAD_WITH_ALTERED_SEARCH_PATH = 0x00000008"

definition LOAD_LIBRARY_REQUIRE_SIGNED_TARGET :: "32 word" where
  "LOAD_LIBRARY_REQUIRE_SIGNED_TARGET = 0x00000080"

definition LOAD_LIBRARY_SEARCH_USER_DIRS :: "32 word" where
  "LOAD_LIBRARY_SEARCH_USER_DIRS = 0x00000400"

definition LOAD_LIBRARY_SEARCH_SYSTEM32 :: "32 word" where
  "LOAD_LIBRARY_SEARCH_SYSTEM32 = 0x00000800"

text \<open>
  The record handed to the boot manager's entry point, with the fields
  \<open>BootmgrStartup\<close> fills in (the icon ids and the localisation lookup are constants of
  the build and are left out).
\<close>

record boot_manager_args =
  bm_instance :: "64 word"
  bm_argv :: "string list"
  bm_app_description :: string
  bm_show_window_flags :: int32
  bm_positional_flags :: "string list"
  bm_insecure_allow_unsigned_module_target :: bool

text \<open>
  What the platform answers to the launcher: the result of \<open>SetDefaultDllDirectories\<close>,
  of \<open>GetApplicationDirectory\<close>, the loader \<open>ScopedSharedLibrary::FromLibraryOnPath\<close>
  (path and flags to a module or an error code), the two steps of command-line
  processing, \<open>Args::FromCommandLine\<close> and \<open>absl::ParseCommandLine\<close> (the argument
  vector to the positional arguments and the value the flag
  \<open>insecure_allow_unsigned_module_target\<close> has afterwards), the locale the process
  got (\<open>ScopedProcessLocale::GetCurrentLocale\<close>) and whether
  \<open>LookupWithFallback::New\<close> makes a lookup for a locale.  The two locale names
  \<open>locales::kUtf8Locale\<close> and \<open>locales::kFallbackLocale\<close> are constants of the build.
\<close>

record win_platform =
  SetDefaultDllDirectories_rc :: error_code
  GetApplicationDirectory :: "error_code + string"
  FromLibraryOnPath :: "string \<Rightarrow> 32 word \<Rightarrow> error_code + boot_manager_args shared_library"
  FromCommandLine :: "string \<Rightarrow> error_code + string list"
  ParseCommandLine :: "string list \<Rightarrow> string list \<times> bool"
  kUtf8Locale :: string
  kFallbackLocale :: string
  GetCurrentLocale :: "string option"
  LookupWithFallback_New :: "string \<Rightarrow> bool"

text \<open>What the launcher does to the outside, in order.\<close>

datatype boot_event =
    SetDefaultDllDirectories "32 word"
  | BootLogWarning string
  | BootLogInfo string
  | BootLogFatal string
  | G3LogInit string
  | LoadLibrary string "32 word"
  | GetAddressAs string
  | InvokeEntry boot_manager_args
  | FatalDialog fatal_payload

text \<open>
  How a run ends: a value is returned to the C runtime, or the process was ended by a fatal
  dialog or a log line of level \<open>FATAL\<close>.
\<close>

datatype exit_status = Returned int32 | Terminated

subsection \<open>BootmgrStartup\<close>

definition boot_manager_flags :: "bool \<Rightarrow> 32 word" where
  "boot_manager_flags insecure_allow_unsigned_module_target =
     LOAD_WITH_ALTERED_SEARCH_PATH OR
       (if \<not> insecure_allow_unsigned_module_target then LOAD_LIBRARY_REQUIRE_SIGNED_TARGET else 0)"

text \<open>\<open>ABSL_FLAG(bool, insecure_allow_unsigned_module_target, false, ...)\<close>: the default.\<close>

definition FLAGS_insecure_allow_unsigned_module_target_default :: bool where
  "FLAGS_insecure_allow_unsigned_module_target_default = False"

definition kBootManagerMainName :: string where
  "kBootManagerMainName = ''BootmgrMain''"

definition check_installed_hint :: l18n_text where
  "check_installed_hint =
     l18n ''Please, check app is installed correctly and you have enough permissions to run it.''"

text \<open>
  \<open>product\<close> is \<open>WB_PRODUCT_FILE_DESCRIPTION_STRING\<close>; \<open>insecure\<close> is what
  \<open>absl::GetFlag(FLAGS_insecure_allow_unsigned_module_target)\<close> reads.
\<close>

definition BootmgrStartup ::
  "string \<Rightarrow> win_platform \<Rightarrow> bool \<Rightarrow> 64 word \<Rightarrow> string list \<Rightarrow> string list \<Rightarrow> int32
     \<Rightarrow> boot_event list \<times> exit_status" where
  "BootmgrStartup product pf insecure instance args positional_flags show_window_flags =
     (let rc = SetDefaultDllDirectories_rc pf;
          ev0 = [SetDefaultDllDirectories
                   (LOAD_LIBRARY_SEARCH_SYSTEM32 OR LOAD_LIBRARY_SEARCH_USER_DIRS)]
                @ (if is_error rc
                   then [BootLogWarning
                     ''Can't enable secure DLL search order, attacker can plant DLLs with malicious code.'']
                   else [])
      in case GetApplicationDirectory pf of
           Inl error \<Rightarrow>
             (ev0 @ [FatalDialog
                \<lparr>fd_title = l18n_fmt ''{0} - Error'' [product], fd_rc = Some error,
                 fd_remediation = check_installed_hint,
                 fd_detail = l18n
                   ''Can't get current directory.  May be app located too deep (> 1024)?''\<rparr>],
              Terminated)
         | Inr app_path \<Rightarrow>
             (let boot_manager_path = app_path @ ''whitebox-boot-manager.dll'';
                  flags = boot_manager_flags insecure;
                  ev1 = ev0 @ [LoadLibrary boot_manager_path flags]
              in case FromLibraryOnPath pf boot_manager_path flags of
                   Inr boot_manager \<Rightarrow>
                     (let ev2 = ev1 @ [GetAddressAs kBootManagerMainName]
                      in case boot_manager kBootManagerMainName of
                           Inr boot_manager_main \<Rightarrow>
                             (let bm_args =
                                    \<lparr>bm_instance = instance, bm_argv = args,
                                     bm_app_description = product,
                                     bm_show_window_flags = show_window_flags,
                                     bm_positional_flags = positional_flags,
                                     bm_insecure_allow_unsigned_module_target = insecure\<rparr>
                              in (ev2 @ [InvokeEntry bm_args], Returned (boot_manager_main bm_args)))
                         | Inl error \<Rightarrow>
                             (ev2 @ [FatalDialog
                                \<lparr>fd_title = l18n_fmt ''{0} - Error'' [product], fd_rc = Some error,
                                 fd_remediation = check_installed_hint,
                                 fd_detail = l18n_fmt ''Can't get '{0}' entry point from '{1}'.''
                                   [kBootManagerMainName, boot_manager_path]\<rparr>],
                              Terminated))
                 | Inl error \<Rightarrow>
                     (ev1 @ [FatalDialog
                        \<lparr>fd_title = l18n_fmt ''{0} - Error'' [product], fd_rc = Some error,
                         fd_remediation = check_installed_hint,
                         fd_detail = l18n_fmt ''Can't load boot manager '{0}'.''
                           [boot_manager_path]\<rparr>],
                      Terminated)))"

subsection \<open>WinMain\<close>

definition insecure_switch :: string where
  "insecure_switch = '' --insecure_allow_unsigned_module_target''"

text \<open>
  The command line the process works with: in a debug build (\<open>_DEBUG\<close>) the switch is
  appended to what \<open>GetCommandLineA\<close>/\<open>GetCommandLineW\<close> returned.
\<close>

definition full_command_line :: "bool \<Rightarrow> string \<Rightarrow> string" where
  "full_command_line debug_build command_line =
     (if debug_build then command_line @ insecure_switch else command_line)"

text \<open>
  \<open>CreateIntl\<close>: the localisation lookup for the process locale, or for the fallback
  locale when the process has none.  Without a lookup the \<open>FATAL\<close> log line ends the
  process; the result tells whether a lookup was made.
\<close>

definition CreateIntl :: "string \<Rightarrow> win_platform \<Rightarrow> boot_event list \<times> bool" where
  "CreateIntl product pf =
     (let maybe_user_locale = GetCurrentLocale pf;
          ev0 = (if maybe_user_locale = None
                 then [BootLogWarning
                   (product @ '' unable to use UTF8 locale '' @ apostrophe @ kUtf8Locale pf
                      @ apostrophe @ '' for UI, fallback to '' @ apostrophe @ kFallbackLocale pf
                      @ apostrophe @ ''.'')]
                 else []);
          user_locale = (case maybe_user_locale of
                           None \<Rightarrow> kFallbackLocale pf
                         | Some locale \<Rightarrow> locale);
          ev1 = ev0 @ [BootLogInfo (product @ '' using '' @ user_locale @ '' locale for UI.'')]
      in if LookupWithFallback_New pf user_locale then (ev1, True)
         else (ev1 @ [BootLogFatal
                 (''Unable to create localization strings lookup for locale '' @ user_locale
                    @ ''.'')],
               False))"

text \<open>
  \<open>WinMain\<close>: logging is initialised with the command line, the localisation lookup
  is made, the arguments are parsed, and \<open>BootmgrStartup\<close>'s result is returned.  The
  scoped initialisers in between (thread error mode, COM) only log a warning when they fail
  and are left out.
\<close>

definition WinMain ::
  "bool \<Rightarrow> string \<Rightarrow> win_platform \<Rightarrow> string \<Rightarrow> 64 word \<Rightarrow> int32 \<Rightarrow> boot_event list \<times> exit_status" where
  "WinMain debug_build product pf command_line instance show_window_flags =
     (let cmd = full_command_line debug_build command_line;
          ev0 = [G3LogInit cmd]
      in case CreateIntl product pf of
           (ev_intl, False) \<Rightarrow> (ev0 @ ev_intl, Terminated)
         | (ev_intl, True) \<Rightarrow>
             (case FromCommandLine pf cmd of
                Inl error \<Rightarrow>
                  (ev0 @ ev_intl @ [FatalDialog
                     \<lparr>fd_title = l18n_fmt ''{0} - Error'' [product], fd_rc = Some error,
                      fd_remediation = l18n
                        ''Please ensure you have enough free memory and use command line correctly.'',
                      fd_detail = l18n ''Can't parse command line flags.  See log for details.''\<rparr>],
                   Terminated)
              | Inr args \<Rightarrow>
                  (case ParseCommandLine pf args of
                     (positional_flags, insecure) \<Rightarrow>
                       (case BootmgrStartup product pf insecure instance args positional_flags
                               show_window_flags of
                          (evs, status) \<Rightarrow> (ev0 @ ev_intl @ evs, status)))))"

subsection \<open>The collaborators the launcher relies on\<close>

text \<open>
  Modelled from the spec: the loader behind \<open>ScopedSharedLibrary::FromLibraryOnPath\<close> and
  \<open>GetAddressAs\<close> (base/scoped\_shared\_library.h is not among the sources).
  \<open>Load(path, flags)\<close> fails with the platform diagnostic when there is no module at the
  path, or when the flags require a signed module and the module is not signed;
  \<open>Resolve(handle, symbolName)\<close> is an exact-name lookup that fails when the symbol is
  absent.  The diagnostics are the Windows system error codes.
\<close>

record module_file =
  mod_signed :: bool
  mod_exports :: "(string \<times> boot_manager_args entry_point) list"

definition system_error :: "int32 \<Rightarrow> error_code" where
  "system_error v = \<lparr>ec_value = v, ec_category = ''system''\<rparr>"

definition ERROR_MOD_NOT_FOUND :: int32 where
  "ERROR_MOD_NOT_FOUND = 126"

definition ERROR_PROC_NOT_FOUND :: int32 where
  "ERROR_PROC_NOT_FOUND = 127"

definition ERROR_INVALID_IMAGE_HASH :: int32 where
  "ERROR_INVALID_IMAGE_HASH = 577"

definition ModuleLoader_Resolve :: "module_file \<Rightarrow> boot_manager_args shared_library" where
  "ModuleLoader_Resolve m symbol_name =
     (case map_of (mod_exports m) symbol_name of
        None \<Rightarrow> Inl (system_error ERROR_PROC_NOT_FOUND)
      | Some entry \<Rightarrow> Inr entry)"

definition ModuleLoader_Load ::
  "(string \<times> module_file) list \<Rightarrow> string \<Rightarrow> 32 word
     \<Rightarrow> error_code + boot_manager_args shared_library" where
  "ModuleLoader_Load disk path flags =
     (case map_of disk path of
        None \<Rightarrow> Inl (system_error ERROR_MOD_NOT_FOUND)
      | Some m \<Rightarrow>
          if flags AND LOAD_LIBRARY_REQUIRE_SIGNED_TARGET \<noteq> 0 \<and> \<not> mod_signed m
          then Inl (system_error ERROR_INVALID_IMAGE_HASH)
          else Inr (ModuleLoader_Resolve m))"

text \<open>
  \<open>Args::FromCommandLine\<close> (apps/args\_win.h) and \<open>absl::ParseCommandLine\<close> (the
  Abseil flags library) are not among the sources and the spec does not describe them:
  \<open>WinMain\<close> takes both from the platform, and what is proved of it in general holds
  for every such pair.  The concrete runs below use the following stand-ins, for command
  lines without quotes.  The command line is cut into arguments at spaces.  The first
  argument is the program name; of the others, the switch
  \<open>--insecure_allow_unsigned_module_target\<close> sets the flag, a bare \<open>--\<close> ends flag
  parsing as the flags library documents (what follows it is positional), and any other
  argument is positional.  The flag starts from its default.
\<close>

fun split_args :: "string \<Rightarrow> string \<Rightarrow> string list" where
  "split_args cur [] = (if cur = [] then [] else [cur])"
| "split_args cur (c # cs) =
     (if c = CHR '' '' then (if cur = [] then [] else [cur]) @ split_args [] cs
      else split_args (cur @ [c]) cs)"

definition CommandLineToArgs :: "string \<Rightarrow> error_code + string list" where
  "CommandLineToArgs command_line = Inr (split_args [] command_line)"

fun parse_flags :: "string list \<Rightarrow> bool \<Rightarrow> string list \<times> bool" where
  "parse_flags [] flag = ([], flag)"
| "parse_flags (arg # args) flag =
     (if arg = ''--'' then (args, flag)
      else if arg = ''--insecure_allow_unsigned_module_target'' then parse_flags args True
      else (case parse_flags args flag of (positional, flag') \<Rightarrow> (arg # positional, flag')))"

definition ParseFlags :: "string list \<Rightarrow> string list \<times> bool" where
  "ParseFlags args =
     (case args of
        [] \<Rightarrow> ([], FLAGS_insecure_allow_unsigned_module_target_default)
      | argv0 # rest \<Rightarrow>
          (case parse_flags rest FLAGS_insecure_allow_unsigned_module_target_default of
             (positional, flag) \<Rightarrow> (argv0 # positional, flag)))"

text \<open>The flags of the loads, the names resolved and the entry calls in a run, in order.\<close>

fun load_flags_of :: "boot_event list \<Rightarrow> 32 word list" where
  "load_flags_of [] = []"
| "load_flags_of (LoadLibrary path flags # evs) = flags # load_flags_of evs"
| "load_flags_of (ev # evs) = load_flags_of evs"

fun resolves_of :: "boot_event list \<Rightarrow> string list" where
  "resolves_of [] = []"
| "resolves_of (GetAddressAs name # evs) = name # resolves_of evs"
| "resolves_of (ev # evs) = resolves_of evs"

fun invokes_of :: "boot_event list \<Rightarrow> boot_manager_args list" where
  "invokes_of [] = []"
| "invokes_of (InvokeEntry a # evs) = a # invokes_of evs"
| "invokes_of (ev # evs) = invokes_of evs"

fun fatal_dialogs_of :: "boot_event list \<Rightarrow> fatal_payload list" where
  "fatal_dialogs_of [] = []"
| "fatal_dialogs_of (FatalDialog payload # evs) = payload # fatal_dialogs_of evs"
| "fatal_dialogs_of (ev # evs) = fatal_dialogs_of evs"

section \<open>The launcher on macOS (the Mac Half-Life 2 entry point)\<close>

text \<open>
  What the platform answers to \<open>main\<close>: the two calls of \<open>_NSGetExecutablePath\<close>, the
  executable's path, \<open>dirname\<close> of it (null with \<open>errno\<close> on failure), and the loader.
  The entry point takes \<open>argc\<close> and \<open>argv\<close>.
\<close>

record mac_platform =
  NSGetExecutablePath_length_rv :: int32
  NSGetExecutablePath_rv :: int32
  exec_path :: string
  dirname_result :: "int32 + string"
  dlopen_library :: "string \<Rightarrow> 32 word \<Rightarrow> error_code + (int32 \<times> string list) shared_library"

definition RTLD_LAZY :: "32 word" where
  "RTLD_LAZY = 0x1"

definition RTLD_LOCAL :: "32 word" where
  "RTLD_LOCAL = 0x4"

definition RTLD_FIRST :: "32 word" where
  "RTLD_FIRST = 0x100"

text \<open>
  Modelled from the spec: \<open>wb::sdl::Fatal\<close> (base/deps/sdl/message\_box.h is not among the
  sources) reports the error with the streamed message and terminates the process.
  A run of \<open>main\<close> ends in such a report or in \<open>exit(rv)\<close>.
\<close>

datatype mac_exit = Exit int32 | Fatal error_code string

text \<open>
  Of the value passed to \<open>exit\<close>, a waiting parent gets the low 8 bits as the process
  exit status (\<open>status & 0377\<close>).
\<close>

definition exit_status :: "int32 \<Rightarrow> int32" where
  "exit_status rv = rv AND 0xFF"

text \<open>
  \<open>snprintf\<close> into a buffer of \<open>buffer_size\<close> bytes keeps at most \<open>buffer_size - 1\<close> characters.
\<close>

definition snprintf_path :: "nat \<Rightarrow> string \<Rightarrow> string \<Rightarrow> string \<Rightarrow> string" where
  "snprintf_path buffer_size a b c = take (buffer_size - 1) (a @ ''/'' @ b @ ''/'' @ c)"

text \<open>
  \<open>rel_path\<close> and \<open>dylib\<close> are the two string constants built from the product macros.
\<close>

definition mac_main ::
  "string \<Rightarrow> string \<Rightarrow> mac_platform \<Rightarrow> int32 \<Rightarrow> string list \<Rightarrow> mac_exit" where
  "mac_main rel_path dylib pf argc argv =
     (if NSGetExecutablePath_length_rv pf \<noteq> - 1
      then Fatal \<lparr>ec_value = NSGetExecutablePath_length_rv pf, ec_category = ''system''\<rparr>
             ''_NSGetExecutablePath: get length failed.  Unable to load the app.''
      else if NSGetExecutablePath_rv pf \<noteq> 0
      then Fatal \<lparr>ec_value = NSGetExecutablePath_rv pf, ec_category = ''system''\<rparr>
             ''_NSGetExecutablePath: get path failed.  Unable to load the app.''
      else case dirname_result pf of
             Inl errno \<Rightarrow>
               Fatal \<lparr>ec_value = errno, ec_category = ''system''\<rparr>
                 (''dirname '' @ apostrophe @ exec_path pf @ apostrophe @ ''.'')
           | Inr parent_dir \<Rightarrow>
               (let framework_path_size = length parent_dir + length rel_path + 2;
                    framework_path = snprintf_path framework_path_size parent_dir rel_path dylib
                in case dlopen_library pf framework_path (RTLD_LAZY OR RTLD_LOCAL OR RTLD_FIRST) of
                     Inl rc \<Rightarrow>
                       Fatal rc (''Can't load boot manager '' @ apostrophe @ framework_path @ ''.'')
                   | Inr boot_manager_module \<Rightarrow>
                       (case boot_manager_module ''BootmgrMain'' of
                          Inl rc \<Rightarrow>
                            Fatal rc (''Can't get 'BootmgrMain' entry point from ''
                                        @ apostrophe @ framework_path @ apostrophe @ ''.'')
                        | Inr boot_manager_main \<Rightarrow> Exit (boot_manager_main (argc, argv)))))"

section \<open>InputQueue\<close>







section \<open>Reading a run of the loop\<close>

text \<open>How the dispatcher records a pumped message.\<close>

definition pumped_event :: "(MSG \<Rightarrow> bool) \<Rightarrow> MSG \<Rightarrow> loop_event" where
  "pumped_event pre m = (if pre m then PreDispatched m else Dispatched m)"

text \<open>The first quit message of a burst, and the part of the burst up to and including it.\<close>

fun first_quit :: "MSG list \<Rightarrow> MSG option" where
  "first_quit [] = None"
| "first_quit (m # ms) = (if message m = WM_QUIT then Some m else first_quit ms)"

fun up_to_quit :: "MSG list \<Rightarrow> MSG list" where
  "up_to_quit [] = []"
| "up_to_quit (m # ms) = (if message m = WM_QUIT then [m] else m # up_to_quit ms)"

text \<open>An iteration that pumps no quit and gets no dispatch error.\<close>

definition quiet :: "pump \<Rightarrow> bool" where
  "quiet p = (dispatch_rc p = None \<and> first_quit (pending p) = None)"

text \<open>
  What a stretch of quiet iterations does when the preceding clock reading was \<open>t\<close>, and
  the clock reading it leaves in \<open>loop_iteration_start_time\<close>.
\<close>

fun quiet_events :: "(MSG \<Rightarrow> bool) \<Rightarrow> int64 \<Rightarrow> pump list \<Rightarrow> loop_event list" where
  "quiet_events pre t [] = []"
| "quiet_events pre t (p # ps) =
     map (pumped_event pre) (pending p) @ [SimulateWorldStep (now_time p - t)]
       @ quiet_events pre (now_time p) ps"

fun last_reading :: "int64 \<Rightarrow> pump list \<Rightarrow> int64" where
  "last_reading t [] = t"
| "last_reading t (p # ps) = last_reading (now_time p) ps"

text \<open>Quit messages, simulation steps and warning lines in a run.\<close>

fun is_quit_event :: "loop_event \<Rightarrow> bool" where
  "is_quit_event (Dispatched m) = (message m = WM_QUIT)"
| "is_quit_event (PreDispatched m) = (message m = WM_QUIT)"
| "is_quit_event ev = False"

fun is_step :: "loop_event \<Rightarrow> bool" where
  "is_step (SimulateWorldStep delta_time) = True"
| "is_step ev = False"

fun is_warning :: "loop_event \<Rightarrow> bool" where
  "is_warning (LogDispatchError name rc) = True"
| "is_warning (LogExitCode name code) = True"
| "is_warning ev = False"

text \<open>The simulation steps that run once a quit message has been pumped.\<close>

definition steps_after_quit :: "loop_event list \<Rightarrow> loop_event list" where
  "steps_after_quit evs = filter is_step (dropWhile (\<lambda>ev. \<not> is_quit_event ev) evs)"

section \<open>Scripted message sources\<close>

text \<open>
  The messages of the spec's scripted source \<open>[Move, KeyDown, Quit(42)]\<close>.
  \<open>PostQuitMessage(code)\<close> posts \<open>WM_QUIT\<close> with the \<open>int\<close> code converted to
  \<open>WPARAM\<close>, which sign-extends it.
\<close>

definition WM_KEYDOWN :: "32 word" where
  "WM_KEYDOWN = 0x0100"

definition WM_MOUSEMOVE :: "32 word" where
  "WM_MOUSEMOVE = 0x0200"

definition Move :: MSG where
  "Move = \<lparr>message = WM_MOUSEMOVE, wParam = 0, lParam = 0\<rparr>"

definition KeyDown :: MSG where
  "KeyDown = \<lparr>message = WM_KEYDOWN, wParam = 0x41, lParam = 0\<rparr>"

definition Quit :: "int32 \<Rightarrow> MSG" where
  "Quit code = \<lparr>message = WM_QUIT, wParam = scast code, lParam = 0\<rparr>"

text \<open>A burst the dispatcher pumps without reporting an error, with the clock reading after it.\<close>

definition burst :: "MSG list \<Rightarrow> int64 \<Rightarrow> pump" where
  "burst ms t = \<lparr>pending = ms, dispatch_rc = None, now_time = t\<rparr>"

text \<open>A burst for which the dispatcher reports an abnormal dispatch condition.\<close>

definition failing_burst :: "MSG list \<Rightarrow> error_code \<Rightarrow> int64 \<Rightarrow> pump" where
  "failing_burst ms rc t = \<lparr>pending = ms, dispatch_rc = Some rc, now_time = t\<rparr>"

section \<open>Test modules and platforms\<close>

text \<open>
  The spec's test module: it exports one entry symbol whose function returns a given code,
  and is signed or not.  A Windows platform with the application in \<open>C:/hl2/\<close>, the
  modules of a given disk, the stand-ins for command-line processing and a lookup for every locale;
  a macOS platform whose loader knows one module, at any path.
\<close>

definition test_module :: "string \<Rightarrow> int32 \<Rightarrow> bool \<Rightarrow> module_file" where
  "test_module entry_symbol code is_signed =
     \<lparr>mod_signed = is_signed, mod_exports = [(entry_symbol, \<lambda>args. code)]\<rparr>"

definition test_platform :: "(string \<times> module_file) list \<Rightarrow> win_platform" where
  "test_platform disk =
     \<lparr>SetDefaultDllDirectories_rc = system_error 0,
      GetApplicationDirectory = Inr ''C:/hl2/'',
      FromLibraryOnPath = ModuleLoader_Load disk,
      FromCommandLine = CommandLineToArgs,
      ParseCommandLine = ParseFlags,
      kUtf8Locale = ''en_US.UTF-8'',
      kFallbackLocale = ''en_US'',
      GetCurrentLocale = Some ''en_US.UTF-8'',
      LookupWithFallback_New = (\<lambda>locale. True)\<rparr>"

definition test_mac_module :: "int32 \<Rightarrow> (int32 \<times> string list) shared_library" where
  "test_mac_module code symbol_name =
     (if symbol_name = ''BootmgrMain'' then Inr (\<lambda>args. code)
      else Inl (system_error ERROR_PROC_NOT_FOUND))"

definition test_mac_platform :: "int32 \<Rightarrow> mac_platform" where
  "test_mac_platform code =
     \<lparr>NSGetExecutablePath_length_rv = - 1,
      NSGetExecutablePath_rv = 0,
      exec_path = ''/Applications/hl2.app/Contents/MacOS/hl2'',
      dirname_result = Inr ''/Applications/hl2.app/Contents/MacOS'',
      dlopen_library = (\<lambda>path flags. Inr (test_mac_module code))\<rparr>"

section \<open>Properties of ScopedNewHandler\<close>

text \<open>
  C10.  ScopedNewHandler round-trips the global new-handler: for every handler \<open>h\<close> and
  every prior handler \<open>p\<close>, after construction the installed handler is \<open>h\<close>, and after
  destruction it is \<open>p\<close> again, whatever the body of the scope did to the global in
  between (in particular when it left it alone).
\<close>

theorem ScopedNewHandler_round_trip:
  "get_new_handler (snd (ScopedNewHandler_ctor h p)) = h
   \<and> previous_new_handler (fst (ScopedNewHandler_ctor h p)) = p
   \<and> get_new_handler (ScopedNewHandler_dtor (fst (ScopedNewHandler_ctor h p)) (snd (ScopedNewHandler_ctor h p))) = p
   \<and> get_new_handler (scoped_block h body p) = p"
  by (simp add: ScopedNewHandler_ctor_def ScopedNewHandler_dtor_def scoped_block_def
      set_new_handler_def get_new_handler_def)

section \<open>Properties of the message loop on Windows\<close>

subsection \<open>One burst\<close>

lemma pump_messages_no_quit:
  "first_quit ms = None \<Longrightarrow>
   pump_messages pre handle_quit_message ms s =
     s\<lparr>events := events s @ map (pumped_event pre) ms\<rparr>"
  by (induction ms arbitrary: s)
     (simp_all add: handle_quit_message_def pumped_event_def Let_def split: if_splits)

lemma pump_messages_quit:
  "first_quit ms = Some q \<Longrightarrow>
   pump_messages pre handle_quit_message ms s =
     s\<lparr>exit_code := ucast (wParam q), is_done := True,
       events := events s @ map (pumped_event pre) (up_to_quit ms)\<rparr>"
  by (induction ms arbitrary: s)
     (simp_all add: handle_quit_message_def pumped_event_def Let_def split: if_splits)

lemma pump_messages_events:
  "events (pump_messages pre handle_quit_message ms s) =
     events s @ map (pumped_event pre) (up_to_quit ms)"
  by (induction ms arbitrary: s)
     (simp_all add: handle_quit_message_def pumped_event_def Let_def)

lemma first_quit_is_quit: "first_quit ms = Some q \<Longrightarrow> message q = WM_QUIT"
  by (induction ms) (simp_all split: if_splits)

lemma up_to_quit_split:
  "first_quit ms = Some q \<Longrightarrow>
   \<exists>before. up_to_quit ms = before @ [q] \<and> first_quit before = None"
proof (induction ms)
  case Nil
  then show ?case by simp
next
  case (Cons m ms)
  show ?case
  proof (cases "message m = WM_QUIT")
    case True
    with Cons.prems have "up_to_quit (m # ms) = [] @ [q] \<and> first_quit [] = None" by simp
    then show ?thesis by blast
  next
    case False
    with Cons obtain before where "up_to_quit ms = before @ [q]" "first_quit before = None"
      by auto
    with False have "up_to_quit (m # ms) = (m # before) @ [q] \<and> first_quit (m # before) = None"
      by simp
    then show ?thesis by blast
  qed
qed

lemma up_to_quit_no_quit: "first_quit ms = None \<Longrightarrow> up_to_quit ms = ms"
  by (induction ms) (simp_all split: if_splits)

lemma no_quit_event_pumped:
  "first_quit ms = None \<Longrightarrow> \<forall>ev \<in> set (map (pumped_event pre) ms). \<not> is_quit_event ev"
  by (induction ms) (simp_all add: pumped_event_def split: if_splits)

lemma no_quit_event_quiet:
  "list_all quiet ps \<Longrightarrow> \<forall>ev \<in> set (quiet_events pre t ps). \<not> is_quit_event ev"
proof (induction ps arbitrary: t)
  case Nil
  then show ?case by simp
next
  case (Cons p ps)
  from Cons.prems have "quiet p" and "list_all quiet ps" by simp_all
  then have "first_quit (pending p) = None" and "list_all quiet ps"
    by (simp_all add: quiet_def)
  with Cons.IH [of "now_time p"] no_quit_event_pumped [of "pending p" pre]
  show ?case by auto
qed

lemma no_warning_pumped: "\<not> list_ex is_warning (map (pumped_event pre) ms)"
  by (induction ms) (simp_all add: pumped_event_def)

subsection \<open>One iteration\<close>

lemma loop_body_quiet:
  "quiet p \<Longrightarrow>
   loop_body name pre p s =
     Continue (s\<lparr>loop_iteration_start_time := now_time p,
                 events := events s @ map (pumped_event pre) (pending p)
                   @ [SimulateWorldStep (now_time p - loop_iteration_start_time s)]\<rparr>)"
  by (simp add: quiet_def loop_body_def Dispatch_def pump_messages_no_quit Let_def)

lemma loop_body_quit:
  "dispatch_rc p = None \<Longrightarrow> first_quit (pending p) = Some q \<Longrightarrow>
   loop_body name pre p s =
     Continue (s\<lparr>exit_code := ucast (wParam q), is_done := True,
                 loop_iteration_start_time := now_time p,
                 events := events s @ map (pumped_event pre) (up_to_quit (pending p))
                   @ [SimulateWorldStep (now_time p - loop_iteration_start_time s)]\<rparr>)"
  by (simp add: loop_body_def Dispatch_def pump_messages_quit Let_def)

lemma loop_body_no_error:
  "dispatch_rc p = None \<Longrightarrow>
   loop_body name pre p s =
     Continue ((pump_messages pre handle_quit_message (pending p) s)
                \<lparr>loop_iteration_start_time := now_time p,
                 events := events s @ map (pumped_event pre) (up_to_quit (pending p))
                   @ [SimulateWorldStep (now_time p - loop_iteration_start_time s)]\<rparr>)"
proof (cases "first_quit (pending p)")
  case None
  assume "dispatch_rc p = None"
  with None show ?thesis
    by (simp add: loop_body_def Dispatch_def pump_messages_no_quit up_to_quit_no_quit Let_def)
next
  case (Some q)
  assume "dispatch_rc p = None"
  with Some show ?thesis
    by (simp add: loop_body_def Dispatch_def pump_messages_quit Let_def)
qed

lemma loop_body_error:
  "dispatch_rc p = Some rc \<Longrightarrow>
   loop_body name pre p s =
     Break ((pump_messages pre handle_quit_message (pending p) s)
             \<lparr>exit_code := ec_value rc,
              events := events s @ map (pumped_event pre) (up_to_quit (pending p))
                @ (if is_error rc then [LogDispatchError name rc] else [])\<rparr>)"
  by (simp add: loop_body_def Dispatch_def pump_messages_events Let_def)

subsection \<open>The loop\<close>

lemma main_loop_done: "is_done s \<Longrightarrow> main_loop name pre ps s = Some s"
  by (cases ps) simp_all

lemma main_loop_quiet:
  "list_all quiet ps \<Longrightarrow> \<not> is_done s \<Longrightarrow>
   main_loop name pre (ps @ rest) s =
     main_loop name pre rest
       (s\<lparr>loop_iteration_start_time := last_reading (loop_iteration_start_time s) ps,
          events := events s @ quiet_events pre (loop_iteration_start_time s) ps\<rparr>)"
proof (induction ps arbitrary: s)
  case Nil
  then show ?case by simp
next
  case (Cons p ps)
  from Cons.prems have q: "quiet p" and qs: "list_all quiet ps" by simp_all
  let ?s' = "s\<lparr>loop_iteration_start_time := now_time p,
                 events := events s @ map (pumped_event pre) (pending p)
                   @ [SimulateWorldStep (now_time p - loop_iteration_start_time s)]\<rparr>"
  have nd: "\<not> is_done ?s'" using Cons.prems by simp
  have "main_loop name pre ((p # ps) @ rest) s = main_loop name pre (ps @ rest) ?s'"
    using Cons.prems(2) by (simp add: loop_body_quiet [OF q])
  also have "\<dots> = main_loop name pre rest
       (?s'\<lparr>loop_iteration_start_time := last_reading (loop_iteration_start_time ?s') ps,
          events := events ?s' @ quiet_events pre (loop_iteration_start_time ?s') ps\<rparr>)"
    by (rule Cons.IH [OF qs nd])
  finally show ?case by simp
qed

lemma main_loop_warning:
  "main_loop name pre ps s = Some s' \<Longrightarrow> \<not> list_ex is_warning (events s) \<Longrightarrow>
   list_ex is_warning (events s') \<Longrightarrow> exit_code s' \<noteq> 0"
proof (induction ps arbitrary: s)
  case Nil
  then show ?case by (simp split: if_splits)
next
  case (Cons p ps)
  show ?case
  proof (cases "is_done s")
    case True
    with Cons.prems show ?thesis by simp
  next
    case nd: False
    show ?thesis
    proof (cases "dispatch_rc p")
      case None
      let ?s1 = "(pump_messages pre handle_quit_message (pending p) s)
                \<lparr>loop_iteration_start_time := now_time p,
                 events := events s @ map (pumped_event pre) (up_to_quit (pending p))
                   @ [SimulateWorldStep (now_time p - loop_iteration_start_time s)]\<rparr>"
      from None nd Cons.prems(1) have run: "main_loop name pre ps ?s1 = Some s'"
        by (simp add: loop_body_no_error)
      have quiet_so_far: "\<not> list_ex is_warning (events ?s1)"
        using Cons.prems(2) by (simp add: no_warning_pumped)
      from Cons.IH [OF run quiet_so_far Cons.prems(3)] show ?thesis .
    next
      case (Some rc)
      with nd Cons.prems(1) have s': "s' = (pump_messages pre handle_quit_message (pending p) s)
             \<lparr>exit_code := ec_value rc,
              events := events s @ map (pumped_event pre) (up_to_quit (pending p))
                @ (if is_error rc then [LogDispatchError name rc] else [])\<rparr>"
        by (simp add: loop_body_error)
      with Cons.prems(2,3) show ?thesis
        by (simp add: no_warning_pumped is_error_def split: if_splits)
    qed
  qed
qed

lemma DispatchMessages_warning:
  assumes "DispatchMessages name pre t0 script = Some (code, evs)"
  shows "list_ex is_warning evs \<longleftrightarrow> code \<noteq> 0"
proof -
  from assms obtain s where run: "main_loop name pre script (init_loop_state t0) = Some s"
    and code: "code = exit_code s"
    and evs: "evs = events s @ (if exit_code s \<noteq> 0 then [LogExitCode name (exit_code s)] else [])"
    by (auto simp: DispatchMessages_def split: option.splits)
  have start: "\<not> list_ex is_warning (events (init_loop_state t0))"
    by (simp add: init_loop_state_def)
  show ?thesis
  proof (cases "exit_code s = 0")
    case True
    with main_loop_warning [OF run start] have "\<not> list_ex is_warning (events s)" by blast
    with True code evs show ?thesis by simp
  next
    case False
    with code evs show ?thesis by simp
  qed
qed

lemma steps_after_first_quit:
  assumes "\<forall>ev \<in> set before. \<not> is_quit_event ev" and "is_quit_event quit_ev"
  shows "steps_after_quit (before @ quit_ev # after) = filter is_step (quit_ev # after)"
  using assms by (simp add: steps_after_quit_def dropWhile_append2)

lemma DispatchMessages_quit:
  assumes quiet: "list_all quiet ps"
    and no_error: "dispatch_rc p = None"
    and quit: "first_quit (pending p) = Some q"
  shows "DispatchMessages name pre t0 (ps @ p # rest) =
     Some (ucast (wParam q),
           quiet_events pre t0 ps @ map (pumped_event pre) (up_to_quit (pending p))
             @ [SimulateWorldStep (now_time p - last_reading t0 ps)]
             @ (if (ucast (wParam q) :: int32) \<noteq> 0
                then [LogExitCode name (ucast (wParam q))] else []))"
proof -
  have "\<not> is_done (init_loop_state t0)" by (simp add: init_loop_state_def)
  from main_loop_quiet [OF quiet this, of name pre "p # rest"]
  show ?thesis
    by (simp add: DispatchMessages_def init_loop_state_def loop_body_quit [OF no_error quit]
        main_loop_done)
qed

lemma quit_code_narrowed:
  "ucast (scast (code :: int32) :: 64 word) = code"
  "ucast (ucast (code :: int32) :: 64 word) = code"
  by (rule bit_word_eqI, auto simp: bit_ucast_iff bit_signed_take_bit_iff bit_simps)+

lemma first_quit_Quit: "first_quit (Quit code # ms) = Some (Quit code)"
  by (simp add: Quit_def)

subsection \<open>Quit\<close>

text \<open>
  C1, as the spec states it, fails: with the scripted source \<open>[Move, KeyDown, Quit(42)]\<close>
  in one burst the loop returns 42, and \<open>SimulateWorldStep\<close> is called once more after the
  quit message has been pumped, in that same iteration.
\<close>

theorem step_after_quit_counterexample:
  "DispatchMessages ''main'' HasNoPreDispatchMessage 0 [burst [Move, KeyDown, Quit 42] 16] =
     Some (42, [Dispatched Move, Dispatched KeyDown, Dispatched (Quit 42), SimulateWorldStep 16,
                LogExitCode ''main'' 42])
   \<and> steps_after_quit [Dispatched Move, Dispatched KeyDown, Dispatched (Quit 42),
        SimulateWorldStep 16, LogExitCode ''main'' 42] = [SimulateWorldStep 16]"
  by (simp add: DispatchMessages_def init_loop_state_def loop_body_def Dispatch_def
      handle_quit_message_def HasNoPreDispatchMessage_def Let_def steps_after_quit_def
      burst_def Move_def KeyDown_def Quit_def WM_QUIT_def WM_KEYDOWN_def WM_MOUSEMOVE_def)

text \<open>
  C1, amended.  When a burst without a dispatch error holds a quit message, after any number
  of iterations without quit or error, the loop stops with the code carried by the first
  quit message of that burst (its \<open>wParam\<close> narrowed to \<open>int\<close>).  The messages
  after the quit and all later bursts are ignored.  The iteration in which the quit was
  pumped completes: its own simulation step is the only one that runs after the quit, and
  no later iteration runs.
\<close>

theorem quit_stops_loop_after_own_step:
  assumes quiet: "list_all quiet ps"
    and no_error: "dispatch_rc p = None"
    and quit: "first_quit (pending p) = Some q"
  shows "DispatchMessages name pre t0 (ps @ p # rest) =
     Some (ucast (wParam q),
           quiet_events pre t0 ps @ map (pumped_event pre) (up_to_quit (pending p))
             @ [SimulateWorldStep (now_time p - last_reading t0 ps)]
             @ (if (ucast (wParam q) :: int32) \<noteq> 0
                then [LogExitCode name (ucast (wParam q))] else []))
   \<and> steps_after_quit
         (quiet_events pre t0 ps @ map (pumped_event pre) (up_to_quit (pending p))
             @ [SimulateWorldStep (now_time p - last_reading t0 ps)]
             @ (if (ucast (wParam q) :: int32) \<noteq> 0
                then [LogExitCode name (ucast (wParam q))] else []))
       = [SimulateWorldStep (now_time p - last_reading t0 ps)]"
proof
  show "DispatchMessages name pre t0 (ps @ p # rest) =
     Some (ucast (wParam q),
           quiet_events pre t0 ps @ map (pumped_event pre) (up_to_quit (pending p))
             @ [SimulateWorldStep (now_time p - last_reading t0 ps)]
             @ (if (ucast (wParam q) :: int32) \<noteq> 0
                then [LogExitCode name (ucast (wParam q))] else []))"
    by (rule DispatchMessages_quit [OF quiet no_error quit])
next
  from up_to_quit_split [OF quit] obtain before
    where split: "up_to_quit (pending p) = before @ [q]" and before: "first_quit before = None"
    by blast
  let ?before = "quiet_events pre t0 ps @ map (pumped_event pre) before"
  let ?after = "[SimulateWorldStep (now_time p - last_reading t0 ps)]
             @ (if (ucast (wParam q) :: int32) \<noteq> 0
                then [LogExitCode name (ucast (wParam q))] else [])"
  have no_quit: "\<forall>ev \<in> set ?before. \<not> is_quit_event ev"
    using no_quit_event_quiet [OF quiet, of pre t0] no_quit_event_pumped [OF before, of pre]
    by auto
  have is_quit: "is_quit_event (pumped_event pre q)"
    using first_quit_is_quit [OF quit] by (simp add: pumped_event_def)
  have "steps_after_quit (?before @ pumped_event pre q # ?after) =
          filter is_step (pumped_event pre q # ?after)"
    by (rule steps_after_first_quit [OF no_quit is_quit])
  also have "\<dots> = [SimulateWorldStep (now_time p - last_reading t0 ps)]"
    by (simp add: pumped_event_def)
  finally show "steps_after_quit
         (quiet_events pre t0 ps @ map (pumped_event pre) (up_to_quit (pending p))
             @ [SimulateWorldStep (now_time p - last_reading t0 ps)]
             @ (if (ucast (wParam q) :: int32) \<noteq> 0
                then [LogExitCode name (ucast (wParam q))] else []))
       = [SimulateWorldStep (now_time p - last_reading t0 ps)]"
    by (simp add: split)
qed

theorem quit_stops_loop_after_own_step_witness:
  "list_all quiet [burst [Move] 10]
   \<and> dispatch_rc (burst [KeyDown, Quit 42, Move] 25) = None
   \<and> first_quit (pending (burst [KeyDown, Quit 42, Move] 25)) = Some (Quit 42)
   \<and> DispatchMessages ''main'' HasNoPreDispatchMessage 0
        ([burst [Move] 10] @ burst [KeyDown, Quit 42, Move] 25 # [burst [KeyDown] 40]) =
      Some (42, [Dispatched Move, SimulateWorldStep 10,
                 Dispatched KeyDown, Dispatched (Quit 42), SimulateWorldStep 15,
                 LogExitCode ''main'' 42])"
proof -
  have h1: "list_all quiet [burst [Move] 10]"
    by (simp add: quiet_def burst_def Move_def WM_QUIT_def WM_MOUSEMOVE_def)
  have h2: "dispatch_rc (burst [KeyDown, Quit 42, Move] 25) = None"
    by (simp add: burst_def)
  have h3: "first_quit (pending (burst [KeyDown, Quit 42, Move] 25)) = Some (Quit 42)"
    by (simp add: burst_def KeyDown_def Quit_def WM_QUIT_def WM_KEYDOWN_def)
  from quit_stops_loop_after_own_step [OF h1 h2 h3, of "''main''" HasNoPreDispatchMessage 0
      "[burst [KeyDown] 40]"]
  have "DispatchMessages ''main'' HasNoPreDispatchMessage 0
        ([burst [Move] 10] @ burst [KeyDown, Quit 42, Move] 25 # [burst [KeyDown] 40]) =
      Some (42, [Dispatched Move, SimulateWorldStep 10,
                 Dispatched KeyDown, Dispatched (Quit 42), SimulateWorldStep 15,
                 LogExitCode ''main'' 42])"
    by (simp add: burst_def pumped_event_def HasNoPreDispatchMessage_def
        KeyDown_def Quit_def Move_def WM_QUIT_def WM_KEYDOWN_def WM_MOUSEMOVE_def)
  with h1 h2 h3 show ?thesis by blast
qed

subsection \<open>Dispatch errors and the log\<close>

text \<open>
  C5, as the spec states it, fails: a dispatch error and a quit do not stop the loop alike,
  and they differ in more than the severity of the log.  A quit with code 5 lets its
  iteration run the simulation step and writes one warning; a dispatch error with code 5
  runs no step and writes two warnings; and an error reported for a burst that also holds a
  quit replaces the quit's exit code with its own.
\<close>

theorem dispatch_error_unlike_quit_counterexample:
  "DispatchMessages ''main'' HasNoPreDispatchMessage 0 [burst [Quit 5] 16] =
     Some (5, [Dispatched (Quit 5), SimulateWorldStep 16, LogExitCode ''main'' 5])
   \<and> DispatchMessages ''main'' HasNoPreDispatchMessage 0 [failing_burst [] (system_error 5) 16] =
     Some (5, [LogDispatchError ''main'' (system_error 5), LogExitCode ''main'' 5])
   \<and> DispatchMessages ''main'' HasNoPreDispatchMessage 0
        [failing_burst [Quit 42] (system_error 5) 16] =
     Some (5, [Dispatched (Quit 42), LogDispatchError ''main'' (system_error 5),
               LogExitCode ''main'' 5])"
  by (simp add: DispatchMessages_def init_loop_state_def loop_body_def Dispatch_def
      handle_quit_message_def HasNoPreDispatchMessage_def Let_def is_error_def system_error_def
      burst_def failing_burst_def Quit_def WM_QUIT_def)

text \<open>
  C5, amended.  When the dispatcher reports an abnormal dispatch condition, after any number
  of iterations without quit or error, the loop stops at once, also when a quit was pumped
  in the same burst: the error's value is the exit code, that iteration runs no simulation
  step, and the bursts after it are never pumped (nothing of \<open>rest\<close> shows in the result).
  A quit differs from it in that its iteration still runs the simulation step, and in the
  log: an error with a non-zero code writes its own warning line before the closing one.
  For every run of the loop that returns, ended by a quit or by a dispatch error, a warning
  line is written exactly when the returned exit code is not zero; a return with code zero
  writes none.
\<close>

theorem dispatch_error_stops_loop:
  assumes quiet: "list_all quiet ps"
    and error: "dispatch_rc p = Some rc"
  shows "DispatchMessages name pre t0 (ps @ p # rest) =
     Some (ec_value rc,
           quiet_events pre t0 ps @ map (pumped_event pre) (up_to_quit (pending p))
             @ (if ec_value rc \<noteq> 0
                then [LogDispatchError name rc, LogExitCode name (ec_value rc)] else []))
   \<and> (\<forall>p' q. dispatch_rc p' = None \<longrightarrow> first_quit (pending p') = Some q \<longrightarrow>
         DispatchMessages name pre t0 (ps @ p' # rest) =
           Some (ucast (wParam q),
                 quiet_events pre t0 ps @ map (pumped_event pre) (up_to_quit (pending p'))
                   @ [SimulateWorldStep (now_time p' - last_reading t0 ps)]
                   @ (if (ucast (wParam q) :: int32) \<noteq> 0
                      then [LogExitCode name (ucast (wParam q))] else [])))
   \<and> (\<forall>script code evs. DispatchMessages name pre t0 script = Some (code, evs)
         \<longrightarrow> (list_ex is_warning evs \<longleftrightarrow> code \<noteq> 0))"
proof (intro conjI)
  have "\<not> is_done (init_loop_state t0)" by (simp add: init_loop_state_def)
  from main_loop_quiet [OF quiet this, of name pre "p # rest"]
  show "DispatchMessages name pre t0 (ps @ p # rest) =
     Some (ec_value rc,
           quiet_events pre t0 ps @ map (pumped_event pre) (up_to_quit (pending p))
             @ (if ec_value rc \<noteq> 0
                then [LogDispatchError name rc, LogExitCode name (ec_value rc)] else []))"
    by (simp add: DispatchMessages_def init_loop_state_def loop_body_error [OF error]
        is_error_def)
next
  show "\<forall>p' q. dispatch_rc p' = None \<longrightarrow> first_quit (pending p') = Some q \<longrightarrow>
         DispatchMessages name pre t0 (ps @ p' # rest) =
           Some (ucast (wParam q),
                 quiet_events pre t0 ps @ map (pumped_event pre) (up_to_quit (pending p'))
                   @ [SimulateWorldStep (now_time p' - last_reading t0 ps)]
                   @ (if (ucast (wParam q) :: int32) \<noteq> 0
                      then [LogExitCode name (ucast (wParam q))] else []))"
    using DispatchMessages_quit [OF quiet] by blast
next
  show "\<forall>script code evs. DispatchMessages name pre t0 script = Some (code, evs)
         \<longrightarrow> (list_ex is_warning evs \<longleftrightarrow> code \<noteq> 0)"
    using DispatchMessages_warning by blast
qed

theorem dispatch_error_stops_loop_witness:
  "list_all quiet [burst [Move] 10]
   \<and> dispatch_rc (failing_burst [KeyDown, Quit 42] (system_error 5) 25) = Some (system_error 5)
   \<and> DispatchMessages ''main'' HasNoPreDispatchMessage 0
        ([burst [Move] 10] @ failing_burst [KeyDown, Quit 42] (system_error 5) 25
           # [burst [Move] 40]) =
      Some (5, [Dispatched Move, SimulateWorldStep 10, Dispatched KeyDown, Dispatched (Quit 42),
                LogDispatchError ''main'' (system_error 5), LogExitCode ''main'' 5])
   \<and> DispatchMessages ''main'' HasNoPreDispatchMessage 0
        ([burst [Move] 10] @ burst [KeyDown, Quit 0] 25 # [burst [Move] 40]) =
      Some (0, [Dispatched Move, SimulateWorldStep 10, Dispatched KeyDown, Dispatched (Quit 0),
                SimulateWorldStep 15])
   \<and> (list_ex is_warning
          [Dispatched Move, SimulateWorldStep 10, Dispatched KeyDown, Dispatched (Quit 0),
           SimulateWorldStep 15] \<longleftrightarrow> (0 :: int32) \<noteq> 0)"
proof -
  have h1: "list_all quiet [burst [Move] 10]"
    by (simp add: quiet_def burst_def Move_def WM_QUIT_def WM_MOUSEMOVE_def)
  have h2: "dispatch_rc (failing_burst [KeyDown, Quit 42] (system_error 5) 25)
      = Some (system_error 5)"
    by (simp add: failing_burst_def)
  note inst = dispatch_error_stops_loop [OF h1 h2, of "''main''" HasNoPreDispatchMessage 0
      "[burst [Move] 40]"]
  from inst have run: "DispatchMessages ''main'' HasNoPreDispatchMessage 0
        ([burst [Move] 10] @ failing_burst [KeyDown, Quit 42] (system_error 5) 25
           # [burst [Move] 40]) =
      Some (5, [Dispatched Move, SimulateWorldStep 10, Dispatched KeyDown, Dispatched (Quit 42),
                LogDispatchError ''main'' (system_error 5), LogExitCode ''main'' 5])"
    by (simp add: burst_def failing_burst_def pumped_event_def HasNoPreDispatchMessage_def
        system_error_def KeyDown_def Move_def Quit_def WM_QUIT_def WM_KEYDOWN_def
        WM_MOUSEMOVE_def)
  have q1: "dispatch_rc (burst [KeyDown, Quit 0] 25) = None"
    by (simp add: burst_def)
  have q2: "first_quit (pending (burst [KeyDown, Quit 0] 25)) = Some (Quit 0)"
    by (simp add: burst_def KeyDown_def Quit_def WM_QUIT_def WM_KEYDOWN_def)
  from inst q1 q2 have "DispatchMessages ''main'' HasNoPreDispatchMessage 0
        ([burst [Move] 10] @ burst [KeyDown, Quit 0] 25 # [burst [Move] 40]) =
      Some (ucast (wParam (Quit 0)),
            quiet_events HasNoPreDispatchMessage 0 [burst [Move] 10]
              @ map (pumped_event HasNoPreDispatchMessage)
                  (up_to_quit (pending (burst [KeyDown, Quit 0] 25)))
              @ [SimulateWorldStep (now_time (burst [KeyDown, Quit 0] 25)
                   - last_reading 0 [burst [Move] 10])]
              @ (if (ucast (wParam (Quit 0)) :: int32) \<noteq> 0
                 then [LogExitCode ''main'' (ucast (wParam (Quit 0)))] else []))"
    by blast
  then have quit0: "DispatchMessages ''main'' HasNoPreDispatchMessage 0
        ([burst [Move] 10] @ burst [KeyDown, Quit 0] 25 # [burst [Move] 40]) =
      Some (0, [Dispatched Move, SimulateWorldStep 10, Dispatched KeyDown, Dispatched (Quit 0),
                SimulateWorldStep 15])"
    by (simp add: burst_def pumped_event_def HasNoPreDispatchMessage_def
        KeyDown_def Move_def Quit_def WM_QUIT_def WM_KEYDOWN_def WM_MOUSEMOVE_def)
  from inst quit0
  have "list_ex is_warning
          [Dispatched Move, SimulateWorldStep 10, Dispatched KeyDown, Dispatched (Quit 0),
           SimulateWorldStep 15] \<longleftrightarrow> (0 :: int32) \<noteq> 0"
    by blast
  with h1 h2 run quit0 show ?thesis by blast
qed

subsection \<open>Frame timing\<close>







section \<open>Properties of the message loop on SDL\<close>

lemma poll_events_quit:
  "poll_events evs flag = (flag \<or> list_ex (\<lambda>event. ev_type event = SDL_QUIT) evs)"
  by (induction evs arbitrary: flag) auto

lemma sdl_loop_quit:
  "sdl_loop script flag =
     (if flag \<or> list_ex (list_ex (\<lambda>event. ev_type event = SDL_QUIT)) script
      then Some () else None)"
  by (induction script arbitrary: flag) (auto simp: poll_events_quit)

text \<open>
  C8.  On the SDL build \<open>DispatchMessages\<close> returns 0 whenever it returns: it returns
  (with 0) exactly when some burst of the script holds an \<open>SDL_QUIT\<close> event.  Nothing
  of an event but its type is read: with any other code in the events the result is the
  same.  \<open>KernelMain\<close> passes that 0 on, so it never returns another value.
\<close>

theorem DispatchMessages_posix_returns_zero:
  "DispatchMessages_posix script =
     (if list_ex (list_ex (\<lambda>event. ev_type event = SDL_QUIT)) script then Some 0 else None)
   \<and> DispatchMessages_posix (map (map (\<lambda>event. event\<lparr>ev_code := other_code\<rparr>)) script) =
       DispatchMessages_posix script
   \<and> (KernelMain_posix app_description st script = Some (PosixReturned code) \<longrightarrow> code = 0)"
proof -
  have shape: "DispatchMessages_posix events =
     (if list_ex (list_ex (\<lambda>event. ev_type event = SDL_QUIT)) events then Some 0 else None)"
    for events
    by (simp add: DispatchMessages_posix_def sdl_loop_quit)
  have same_types: "list_ex (list_ex (\<lambda>event. ev_type event = SDL_QUIT))
        (map (map (\<lambda>event. event\<lparr>ev_code := other_code\<rparr>)) script) =
      list_ex (list_ex (\<lambda>event. ev_type event = SDL_QUIT)) script"
    by (simp add: list_ex_iff)
  have kernel: "KernelMain_posix app_description st script = Some (PosixReturned code)
      \<longrightarrow> code = 0"
    by (auto simp: shape KernelMain_posix_def split: option.splits if_splits)
  from shape [of script] shape [of "map (map (\<lambda>event. event\<lparr>ev_code := other_code\<rparr>)) script"]
    same_types kernel
  show ?thesis by simp
qed

theorem DispatchMessages_posix_returns_zero_witness:
  "DispatchMessages_posix
     [[\<lparr>ev_type = 0x300, ev_code = 0\<rparr>], [\<lparr>ev_type = SDL_QUIT, ev_code = 42\<rparr>]] = Some 0
   \<and> KernelMain_posix ''Half-Life 2''
        \<lparr>compiled_sdl_version = ''2.0.14'', linked_sdl_version = ''2.0.14'', sdl_revision = ''r'',
         sdl_image_initializer_flags = ''Jpg | Png'', graphics_context = ''Vulkan'',
         sdl_init_error = None, sdl_image_init_error = None, sdl_window_error = None,
         sdl_icon_error = None\<rparr>
        [[\<lparr>ev_type = 0x300, ev_code = 0\<rparr>], [\<lparr>ev_type = SDL_QUIT, ev_code = 42\<rparr>]]
      = Some (PosixReturned 0)"
proof -
  have run: "KernelMain_posix ''Half-Life 2''
        \<lparr>compiled_sdl_version = ''2.0.14'', linked_sdl_version = ''2.0.14'', sdl_revision = ''r'',
         sdl_image_initializer_flags = ''Jpg | Png'', graphics_context = ''Vulkan'',
         sdl_init_error = None, sdl_image_init_error = None, sdl_window_error = None,
         sdl_icon_error = None\<rparr>
        [[\<lparr>ev_type = 0x300, ev_code = 0\<rparr>], [\<lparr>ev_type = SDL_QUIT, ev_code = 42\<rparr>]]
      = Some (PosixReturned 0)"
    by (simp add: KernelMain_posix_def DispatchMessages_posix_def SDL_QUIT_def)
  from DispatchMessages_posix_returns_zero
    [where script = "[[\<lparr>ev_type = 0x300, ev_code = 0\<rparr>], [\<lparr>ev_type = SDL_QUIT, ev_code = 42\<rparr>]]"
       and other_code = 0 and code = 0 and app_description =  "''Half-Life 2''"
       and st = "\<lparr>compiled_sdl_version = ''2.0.14'', linked_sdl_version = ''2.0.14'', sdl_revision = ''r'',
         sdl_image_initializer_flags = ''Jpg | Png'', graphics_context = ''Vulkan'',
         sdl_init_error = None, sdl_image_init_error = None, sdl_window_error = None,
         sdl_icon_error = None\<rparr>"]
  have "DispatchMessages_posix
     [[\<lparr>ev_type = 0x300, ev_code = 0\<rparr>], [\<lparr>ev_type = SDL_QUIT, ev_code = 42\<rparr>]] = Some 0"
    by (simp add: SDL_QUIT_def)
  with run show ?thesis by blast
qed

section \<open>Properties of InputQueue\<close>





section \<open>Properties of the launcher\<close>


lemma boot_manager_flags_signed:
  "(boot_manager_flags insecure AND LOAD_LIBRARY_REQUIRE_SIGNED_TARGET \<noteq> 0) \<longleftrightarrow> \<not> insecure"
  by (simp add: boot_manager_flags_def LOAD_WITH_ALTERED_SEARCH_PATH_def
      LOAD_LIBRARY_REQUIRE_SIGNED_TARGET_def)

lemma BootmgrStartup_invoked:
  assumes "GetApplicationDirectory pf = Inr app_path"
    and "FromLibraryOnPath pf (app_path @ ''whitebox-boot-manager.dll'')
           (boot_manager_flags insecure) = Inr boot_manager"
    and "boot_manager kBootManagerMainName = Inr boot_manager_main"
  shows "snd (BootmgrStartup product pf insecure instance args positional sw) =
     Returned (boot_manager_main
       \<lparr>bm_instance = instance, bm_argv = args, bm_app_description = product,
        bm_show_window_flags = sw, bm_positional_flags = positional,
        bm_insecure_allow_unsigned_module_target = insecure\<rparr>)"
  using assms by (simp add: BootmgrStartup_def Let_def)

subsection \<open>Loading the module\<close>

text \<open>
  C3.  The flags of the load include \<open>LOAD_LIBRARY_REQUIRE_SIGNED_TARGET\<close> exactly when
  \<open>insecure_allow_unsigned_module_target\<close> is false, and false is the flag's default.
  When the load fails, \<open>BootmgrStartup\<close> ends in one fatal dialog that carries the
  loader's error code and the module's path; the module is loaded once, no symbol is
  resolved and no entry point is called.  The loader fails in this way for a module that is
  not signed when the override is off.
\<close>

theorem unsigned_module_load_fails_fatally:
  assumes app: "GetApplicationDirectory pf = Inr app_path"
    and load: "FromLibraryOnPath pf (app_path @ ''whitebox-boot-manager.dll'')
                 (boot_manager_flags insecure) = Inl error"
  shows "((boot_manager_flags insecure AND LOAD_LIBRARY_REQUIRE_SIGNED_TARGET \<noteq> 0)
            \<longleftrightarrow> \<not> insecure)
   \<and> boot_manager_flags FLAGS_insecure_allow_unsigned_module_target_default
         AND LOAD_LIBRARY_REQUIRE_SIGNED_TARGET \<noteq> 0
   \<and> snd (BootmgrStartup product pf insecure instance args positional sw) = Terminated
   \<and> fatal_dialogs_of (fst (BootmgrStartup product pf insecure instance args positional sw)) =
        [\<lparr>fd_title = l18n_fmt ''{0} - Error'' [product], fd_rc = Some error,
          fd_remediation = check_installed_hint,
          fd_detail = l18n_fmt ''Can't load boot manager '{0}'.''
            [app_path @ ''whitebox-boot-manager.dll'']\<rparr>]
   \<and> load_flags_of (fst (BootmgrStartup product pf insecure instance args positional sw)) =
        [boot_manager_flags insecure]
   \<and> resolves_of (fst (BootmgrStartup product pf insecure instance args positional sw)) = []
   \<and> invokes_of (fst (BootmgrStartup product pf insecure instance args positional sw)) = []
   \<and> (\<forall>disk path m. map_of disk path = Some m \<longrightarrow> \<not> mod_signed m \<longrightarrow>
         ModuleLoader_Load disk path (boot_manager_flags False) =
           Inl (system_error ERROR_INVALID_IMAGE_HASH))"
proof -
  have flags: "(boot_manager_flags insecure AND LOAD_LIBRARY_REQUIRE_SIGNED_TARGET \<noteq> 0)
            \<longleftrightarrow> \<not> insecure"
    by (rule boot_manager_flags_signed)
  have default: "boot_manager_flags FLAGS_insecure_allow_unsigned_module_target_default
         AND LOAD_LIBRARY_REQUIRE_SIGNED_TARGET \<noteq> 0"
    by (simp add: boot_manager_flags_signed FLAGS_insecure_allow_unsigned_module_target_default_def)
  have run: "BootmgrStartup product pf insecure instance args positional sw =
     ([SetDefaultDllDirectories (LOAD_LIBRARY_SEARCH_SYSTEM32 OR LOAD_LIBRARY_SEARCH_USER_DIRS)]
        @ (if is_error (SetDefaultDllDirectories_rc pf)
           then [BootLogWarning
             ''Can't enable secure DLL search order, attacker can plant DLLs with malicious code.'']
           else [])
        @ [LoadLibrary (app_path @ ''whitebox-boot-manager.dll'') (boot_manager_flags insecure),
           FatalDialog
             \<lparr>fd_title = l18n_fmt ''{0} - Error'' [product], fd_rc = Some error,
              fd_remediation = check_installed_hint,
              fd_detail = l18n_fmt ''Can't load boot manager '{0}'.''
                [app_path @ ''whitebox-boot-manager.dll'']\<rparr>],
      Terminated)"
    using app load by (simp add: BootmgrStartup_def Let_def)
  have loader: "\<forall>disk path m. map_of disk path = Some m \<longrightarrow> \<not> mod_signed m \<longrightarrow>
         ModuleLoader_Load disk path (boot_manager_flags False) =
           Inl (system_error ERROR_INVALID_IMAGE_HASH)"
    using boot_manager_flags_signed [of False] by (simp add: ModuleLoader_Load_def)
  from flags default loader show ?thesis
    by (simp add: run)
qed

theorem unsigned_module_load_fails_fatally_witness:
  "GetApplicationDirectory
     (test_platform [(''C:/hl2/whitebox-boot-manager.dll'', test_module ''BootmgrMain'' 7 False)])
     = Inr ''C:/hl2/''
   \<and> FromLibraryOnPath
       (test_platform [(''C:/hl2/whitebox-boot-manager.dll'', test_module ''BootmgrMain'' 7 False)])
       (''C:/hl2/'' @ ''whitebox-boot-manager.dll'') (boot_manager_flags False)
     = Inl (system_error ERROR_INVALID_IMAGE_HASH)
   \<and> snd (BootmgrStartup ''Half-Life 2''
        (test_platform [(''C:/hl2/whitebox-boot-manager.dll'', test_module ''BootmgrMain'' 7 False)])
        False 1 [''hl2.exe''] [''hl2.exe''] 1) = Terminated
   \<and> invokes_of (fst (BootmgrStartup ''Half-Life 2''
        (test_platform [(''C:/hl2/whitebox-boot-manager.dll'', test_module ''BootmgrMain'' 7 False)])
        False 1 [''hl2.exe''] [''hl2.exe''] 1)) = []
   \<and> resolves_of (fst (BootmgrStartup ''Half-Life 2''
        (test_platform [(''C:/hl2/whitebox-boot-manager.dll'', test_module ''BootmgrMain'' 7 False)])
        False 1 [''hl2.exe''] [''hl2.exe''] 1)) = []"
proof -
  let ?pf = "test_platform
    [(''C:/hl2/whitebox-boot-manager.dll'', test_module ''BootmgrMain'' 7 False)]"
  have h1: "GetApplicationDirectory ?pf = Inr ''C:/hl2/''"
    by (simp add: test_platform_def)
  have h2: "FromLibraryOnPath ?pf (''C:/hl2/'' @ ''whitebox-boot-manager.dll'')
      (boot_manager_flags False) = Inl (system_error ERROR_INVALID_IMAGE_HASH)"
    using boot_manager_flags_signed [of False]
    by (simp add: test_platform_def ModuleLoader_Load_def test_module_def)
  from unsigned_module_load_fails_fatally [OF h1 h2, of "''Half-Life 2''" 1 "[''hl2.exe'']"
      "[''hl2.exe'']" 1] h1 h2
  show ?thesis by blast
qed

subsection \<open>Resolving the entry point\<close>

text \<open>
  C4.  When the module loads and the lookup of the entry symbol \<open>BootmgrMain\<close> fails,
  \<open>BootmgrStartup\<close> ends in one fatal dialog that carries the lookup's error code, the
  symbol name and the module's path, and no entry point is called.  The lookup is by the
  exact name: it fails for a module that does not export that name.
\<close>

theorem missing_entry_point_never_invoked:
  assumes app: "GetApplicationDirectory pf = Inr app_path"
    and load: "FromLibraryOnPath pf (app_path @ ''whitebox-boot-manager.dll'')
                 (boot_manager_flags insecure) = Inr boot_manager"
    and resolve: "boot_manager kBootManagerMainName = Inl error"
  shows "snd (BootmgrStartup product pf insecure instance args positional sw) = Terminated
   \<and> fatal_dialogs_of (fst (BootmgrStartup product pf insecure instance args positional sw)) =
        [\<lparr>fd_title = l18n_fmt ''{0} - Error'' [product], fd_rc = Some error,
          fd_remediation = check_installed_hint,
          fd_detail = l18n_fmt ''Can't get '{0}' entry point from '{1}'.''
            [''BootmgrMain'', app_path @ ''whitebox-boot-manager.dll'']\<rparr>]
   \<and> resolves_of (fst (BootmgrStartup product pf insecure instance args positional sw)) =
        [''BootmgrMain'']
   \<and> invokes_of (fst (BootmgrStartup product pf insecure instance args positional sw)) = []
   \<and> (\<forall>m symbol_name. map_of (mod_exports m) symbol_name = None \<longrightarrow>
         ModuleLoader_Resolve m symbol_name = Inl (system_error ERROR_PROC_NOT_FOUND))"
proof -
  have run: "BootmgrStartup product pf insecure instance args positional sw =
     ([SetDefaultDllDirectories (LOAD_LIBRARY_SEARCH_SYSTEM32 OR LOAD_LIBRARY_SEARCH_USER_DIRS)]
        @ (if is_error (SetDefaultDllDirectories_rc pf)
           then [BootLogWarning
             ''Can't enable secure DLL search order, attacker can plant DLLs with malicious code.'']
           else [])
        @ [LoadLibrary (app_path @ ''whitebox-boot-manager.dll'') (boot_manager_flags insecure),
           GetAddressAs ''BootmgrMain'',
           FatalDialog
             \<lparr>fd_title = l18n_fmt ''{0} - Error'' [product], fd_rc = Some error,
              fd_remediation = check_installed_hint,
              fd_detail = l18n_fmt ''Can't get '{0}' entry point from '{1}'.''
                [''BootmgrMain'', app_path @ ''whitebox-boot-manager.dll'']\<rparr>],
      Terminated)"
    using app load resolve by (simp add: BootmgrStartup_def Let_def kBootManagerMainName_def)
  have lookup: "\<forall>m symbol_name. map_of (mod_exports m) symbol_name = None \<longrightarrow>
         ModuleLoader_Resolve m symbol_name = Inl (system_error ERROR_PROC_NOT_FOUND)"
    by (simp add: ModuleLoader_Resolve_def)
  from lookup show ?thesis
    by (simp add: run)
qed

theorem missing_entry_point_never_invoked_witness:
  "GetApplicationDirectory
     (test_platform [(''C:/hl2/whitebox-boot-manager.dll'', test_module ''BootManagerMain'' 7 True)])
     = Inr ''C:/hl2/''
   \<and> FromLibraryOnPath
       (test_platform [(''C:/hl2/whitebox-boot-manager.dll'', test_module ''BootManagerMain'' 7 True)])
       (''C:/hl2/'' @ ''whitebox-boot-manager.dll'') (boot_manager_flags False)
     = Inr (ModuleLoader_Resolve (test_module ''BootManagerMain'' 7 True))
   \<and> ModuleLoader_Resolve (test_module ''BootManagerMain'' 7 True) kBootManagerMainName
     = Inl (system_error ERROR_PROC_NOT_FOUND)
   \<and> snd (BootmgrStartup ''Half-Life 2''
        (test_platform [(''C:/hl2/whitebox-boot-manager.dll'', test_module ''BootManagerMain'' 7 True)])
        False 1 [''hl2.exe''] [''hl2.exe''] 1) = Terminated
   \<and> invokes_of (fst (BootmgrStartup ''Half-Life 2''
        (test_platform [(''C:/hl2/whitebox-boot-manager.dll'', test_module ''BootManagerMain'' 7 True)])
        False 1 [''hl2.exe''] [''hl2.exe''] 1)) = []"
proof -
  let ?pf = "test_platform
    [(''C:/hl2/whitebox-boot-manager.dll'', test_module ''BootManagerMain'' 7 True)]"
  have h1: "GetApplicationDirectory ?pf = Inr ''C:/hl2/''"
    by (simp add: test_platform_def)
  have h2: "FromLibraryOnPath ?pf (''C:/hl2/'' @ ''whitebox-boot-manager.dll'')
      (boot_manager_flags False) = Inr (ModuleLoader_Resolve (test_module ''BootManagerMain'' 7 True))"
    by (simp add: test_platform_def ModuleLoader_Load_def test_module_def)
  have h3: "ModuleLoader_Resolve (test_module ''BootManagerMain'' 7 True) kBootManagerMainName
     = Inl (system_error ERROR_PROC_NOT_FOUND)"
    by (simp add: ModuleLoader_Resolve_def test_module_def kBootManagerMainName_def)
  from missing_entry_point_never_invoked [OF h1 h2 h3, of "''Half-Life 2''" 1 "[''hl2.exe'']"
      "[''hl2.exe'']" 1] h1 h2 h3
  show ?thesis by blast
qed

subsection \<open>The exit code\<close>

lemma exit_status_unchanged: "exit_status rv = rv \<longleftrightarrow> uint rv < 256"
  using mask_eq_iff [of rv 8] by (simp add: exit_status_def mask_eq_exp_minus_1)

lemma KernelMain_posix_zero:
  "KernelMain_posix app_description st script = Some (PosixReturned code) \<Longrightarrow> code = 0"
  by (auto simp: KernelMain_posix_def DispatchMessages_posix_def split: option.splits)

text \<open>
  C2, as the spec states it, fails on two layers.  The SDL \<open>KernelMain\<close> returns 0 from
  a loop that a quit event ended, whatever that event carries (here 42).  On macOS
  \<open>main\<close> passes the entry point's value to \<open>exit\<close>, and the process exit status is
  its low 8 bits: a module returning 256 ends the process with status 0.
\<close>

theorem exit_code_not_forwarded_counterexample:
  "KernelMain_posix ''Half-Life 2''
        \<lparr>compiled_sdl_version = ''2.0.14'', linked_sdl_version = ''2.0.14'', sdl_revision = ''r'',
         sdl_image_initializer_flags = ''Jpg | Png'', graphics_context = ''Metal'',
         sdl_init_error = None, sdl_image_init_error = None, sdl_window_error = None,
         sdl_icon_error = None\<rparr>
        [[\<lparr>ev_type = SDL_QUIT, ev_code = 42\<rparr>]]
      = Some (PosixReturned 0)
   \<and> mac_main ''../Frameworks/Half-Life 2 Framework'' ''libwhitebox-boot-manager.dylib''
        (test_mac_platform 256) 1 [''hl2''] = Exit 256
   \<and> exit_status 256 = 0"
  by (simp add: KernelMain_posix_def DispatchMessages_posix_def SDL_QUIT_def mac_main_def
      test_mac_platform_def test_mac_module_def Let_def exit_status_def)

text \<open>
  C2, amended.  On Windows the exit code crosses every layer unchanged.  When the module
  loads and its entry symbol resolves, \<open>BootmgrStartup\<close> returns what the entry point
  returns and \<open>WinMain\<close> returns what \<open>BootmgrStartup\<close> returns (it gets that far when
  the localisation lookup is made and the command line parses); this for every entry point,
  so for every code it returns.  When the window is created and the loop is ended by a quit
  message, \<open>KernelMain\<close> of kernel/main\_win.cc returns the code that message carries; a
  code posted by \<open>PostQuitMessage\<close> comes back as it was posted.  On macOS \<open>main\<close>
  passes what the entry point returns to \<open>exit\<close> unchanged, and the process exit status
  is that value exactly when it lies in 0..255.  The SDL \<open>KernelMain\<close> returns 0 whenever
  its loop ends.
\<close>

theorem exit_code_forwarded_unchanged:
  assumes app: "GetApplicationDirectory pf = Inr app_path"
    and load: "FromLibraryOnPath pf (app_path @ ''whitebox-boot-manager.dll'')
                 (boot_manager_flags insecure) = Inr boot_manager"
    and resolve: "boot_manager kBootManagerMainName = Inr boot_manager_main"
    and cmd: "FromCommandLine pf (full_command_line debug_build command_line) = Inr args"
    and parsed: "ParseCommandLine pf args = (positional, insecure)"
    and intl: "snd (CreateIntl product pf)"
    and mac_length: "NSGetExecutablePath_length_rv mpf = - 1"
    and mac_path: "NSGetExecutablePath_rv mpf = 0"
    and mac_dir: "dirname_result mpf = Inr parent_dir"
    and mac_load: "dlopen_library mpf
                     (snprintf_path (length parent_dir + length rel_path + 2)
                        parent_dir rel_path dylib)
                     (RTLD_LAZY OR RTLD_LOCAL OR RTLD_FIRST) = Inr mac_module"
    and mac_resolve: "mac_module ''BootmgrMain'' = Inr mac_boot_manager_main"
    and quiet: "list_all quiet ps"
    and no_error: "dispatch_rc p = None"
    and quit: "first_quit (pending p) = Some q"
  shows "snd (BootmgrStartup product pf insecure instance args positional sw) =
           Returned (boot_manager_main
             \<lparr>bm_instance = instance, bm_argv = args, bm_app_description = product,
              bm_show_window_flags = sw, bm_positional_flags = positional,
              bm_insecure_allow_unsigned_module_target = insecure\<rparr>)
   \<and> snd (WinMain debug_build product pf command_line instance sw) =
           snd (BootmgrStartup product pf insecure instance args positional sw)
   \<and> mac_main rel_path dylib mpf argc argv = Exit (mac_boot_manager_main (argc, argv))
   \<and> (\<exists>evs. KernelMain app_description (Inr ()) pre t0 (ps @ p # rest) =
                Some (KernelReturned (ucast (wParam q)) evs))
   \<and> (ucast (wParam (Quit code)) :: int32) = code
   \<and> (exit_status (mac_boot_manager_main (argc, argv)) = mac_boot_manager_main (argc, argv)
        \<longleftrightarrow> uint (mac_boot_manager_main (argc, argv)) < 256)
   \<and> (\<forall>st sdl_script sdl_code.
         KernelMain_posix app_description st sdl_script = Some (PosixReturned sdl_code)
         \<longrightarrow> sdl_code = 0)"
proof -
  have startup: "snd (BootmgrStartup product pf insecure instance args positional sw) =
           Returned (boot_manager_main
             \<lparr>bm_instance = instance, bm_argv = args, bm_app_description = product,
              bm_show_window_flags = sw, bm_positional_flags = positional,
              bm_insecure_allow_unsigned_module_target = insecure\<rparr>)"
    by (rule BootmgrStartup_invoked [OF app load resolve])
  have winmain: "snd (WinMain debug_build product pf command_line instance sw) =
           snd (BootmgrStartup product pf insecure instance args positional sw)"
    using cmd parsed intl by (simp add: WinMain_def Let_def split_beta)
  have mac: "mac_main rel_path dylib mpf argc argv = Exit (mac_boot_manager_main (argc, argv))"
    using mac_length mac_path mac_dir mac_load mac_resolve
    by (simp add: mac_main_def Let_def)
  have kernel: "\<exists>evs. KernelMain app_description (Inr ()) pre t0 (ps @ p # rest) =
                Some (KernelReturned (ucast (wParam q)) evs)"
    by (simp add: KernelMain_def DispatchMessages_quit [OF quiet no_error quit])
  have posted: "(ucast (wParam (Quit code)) :: int32) = code"
    by (simp add: Quit_def quit_code_narrowed)
  have status: "exit_status (mac_boot_manager_main (argc, argv)) = mac_boot_manager_main (argc, argv)
        \<longleftrightarrow> uint (mac_boot_manager_main (argc, argv)) < 256"
    by (rule exit_status_unchanged)
  have sdl: "\<forall>st sdl_script sdl_code.
         KernelMain_posix app_description st sdl_script = Some (PosixReturned sdl_code)
         \<longrightarrow> sdl_code = 0"
    using KernelMain_posix_zero by blast
  from startup winmain mac kernel posted status sdl show ?thesis by blast
qed

theorem exit_code_forwarded_unchanged_witness:
  "snd (BootmgrStartup ''Half-Life 2''
          (test_platform [(''C:/hl2/whitebox-boot-manager.dll'', test_module ''BootmgrMain'' 7 True)])
          False 1 [''hl2.exe''] [''hl2.exe''] 1) = Returned 7
   \<and> snd (WinMain False ''Half-Life 2''
          (test_platform [(''C:/hl2/whitebox-boot-manager.dll'', test_module ''BootmgrMain'' 7 True)])
          ''hl2.exe'' 1 1) = Returned 7
   \<and> mac_main ''../Frameworks/Half-Life 2 Framework'' ''libwhitebox-boot-manager.dylib''
        (test_mac_platform 7) 1 [''hl2''] = Exit 7
   \<and> (\<exists>evs. KernelMain ''Half-Life 2'' (Inr ()) HasNoPreDispatchMessage 0
               ([burst [Move] 10] @ burst [KeyDown, Quit 42] 25 # []) =
             Some (KernelReturned 42 evs))
   \<and> exit_status 7 = 7"
proof -
  let ?pf = "test_platform
    [(''C:/hl2/whitebox-boot-manager.dll'', test_module ''BootmgrMain'' 7 True)]"
  let ?entry = "(\<lambda>args. 7) :: boot_manager_args entry_point"
  have app: "GetApplicationDirectory ?pf = Inr ''C:/hl2/''"
    by (simp add: test_platform_def)
  have load: "FromLibraryOnPath ?pf (''C:/hl2/'' @ ''whitebox-boot-manager.dll'')
      (boot_manager_flags False) = Inr (ModuleLoader_Resolve (test_module ''BootmgrMain'' 7 True))"
    by (simp add: test_platform_def ModuleLoader_Load_def test_module_def)
  have resolve: "ModuleLoader_Resolve (test_module ''BootmgrMain'' 7 True) kBootManagerMainName
     = Inr ?entry"
    by (simp add: ModuleLoader_Resolve_def test_module_def kBootManagerMainName_def)
  have cmd: "FromCommandLine ?pf (full_command_line False ''hl2.exe'') = Inr [''hl2.exe'']"
    by (simp add: test_platform_def CommandLineToArgs_def full_command_line_def)
  have parsed: "ParseCommandLine ?pf [''hl2.exe''] = ([''hl2.exe''], False)"
    by (simp add: test_platform_def ParseFlags_def
        FLAGS_insecure_allow_unsigned_module_target_default_def)
  have intl: "snd (CreateIntl ''Half-Life 2'' ?pf)"
    by (simp add: CreateIntl_def test_platform_def)
  have mac_length: "NSGetExecutablePath_length_rv (test_mac_platform 7) = - 1"
    by (simp add: test_mac_platform_def)
  have mac_path: "NSGetExecutablePath_rv (test_mac_platform 7) = 0"
    by (simp add: test_mac_platform_def)
  have mac_dir: "dirname_result (test_mac_platform 7) = Inr ''/Applications/hl2.app/Contents/MacOS''"
    by (simp add: test_mac_platform_def)
  have mac_load: "dlopen_library (test_mac_platform 7)
       (snprintf_path (length ''/Applications/hl2.app/Contents/MacOS''
            + length ''../Frameworks/Half-Life 2 Framework'' + 2)
          ''/Applications/hl2.app/Contents/MacOS'' ''../Frameworks/Half-Life 2 Framework''
          ''libwhitebox-boot-manager.dylib'')
       (RTLD_LAZY OR RTLD_LOCAL OR RTLD_FIRST) = Inr (test_mac_module 7)"
    by (simp add: test_mac_platform_def)
  have mac_resolve: "test_mac_module 7 ''BootmgrMain'' = Inr (\<lambda>args. 7)"
    by (simp add: test_mac_module_def)
  have quiet: "list_all quiet [burst [Move] 10]"
    by (simp add: quiet_def burst_def Move_def WM_QUIT_def WM_MOUSEMOVE_def)
  have no_error: "dispatch_rc (burst [KeyDown, Quit 42] 25) = None"
    by (simp add: burst_def)
  have quit: "first_quit (pending (burst [KeyDown, Quit 42] 25)) = Some (Quit 42)"
    by (simp add: burst_def KeyDown_def Quit_def WM_QUIT_def WM_KEYDOWN_def)
  have code: "(ucast (wParam (Quit 42)) :: int32) = 42"
    by (simp add: Quit_def)
  from exit_code_forwarded_unchanged [OF app load resolve cmd parsed intl mac_length mac_path
      mac_dir mac_load mac_resolve quiet no_error quit,
      of 1 1 1 "[''hl2'']" "''Half-Life 2''" HasNoPreDispatchMessage 0 "[]"]
  show ?thesis by (simp add: code exit_status_def)
qed

subsection \<open>Debug builds\<close>







end
